theory Spec2Isabelle
  imports Main "HOL-Library.Word"
begin

section \<open>Domain types (package domain)\<close>

text \<open>
  A \<open>uuid.UUID\<close> is represented by its canonical text form, so that \<open>String()\<close> is the
  identity and Go's array comparison is string equality. A \<open>time.Time\<close> is represented
  by its Unix seconds. A \<open>[]byte\<close> is a list of 8-bit words. Calls to \<open>slog\<close> write to the
  process log only; they neither return a value nor touch any collaborator, and are
  left out of the model.
\<close>

type_synonym uuid = string
type_synonym time = int
type_synonym bytes = "8 word list"

text \<open>
  Go error values. The first group are the sentinel errors of package domain that the
  services return. \<open>External\<close> is an error produced by a collaborator (database, cache,
  remote store, library); \<open>Errorf p e\<close> is \<open>fmt.Errorf(p + " %w", e)\<close>. \<open>Panic\<close> is a
  run-time panic (a failed type assertion), which is not a returned error value.
\<close>

datatype err =
    ErrUserNotFoundInContext
  | ErrIndicativeRatingNotFound
  | ErrMoviesNotFound
  | ErrMovieNotBelongUser
  | ErrMoviesNotFoundByUserID
  | ErrGetUserByEmail
  | ErrEmailAlreadyRegister
  | ErrHashingPassword
  | ErrCreateUser
  | ErrUserNotFound
  | ErrInvalidPassword
  | ErrCreateSession
  | ErrRecordNotFound
  | External string
  | Errorf string err
  | Panic string

record User =
  User_ID :: uuid
  User_FirstName :: string
  User_LastName :: string
  User_Email :: string
  User_PasswordHash :: string
  User_BirthDate :: time
  User_CreatedAt :: time
  User_UpdatedAt :: time

record IndicativeRating =
  IndicativeRating_ID :: uuid
  IndicativeRating_Description :: string
  IndicativeRating_ImageURL :: string
  IndicativeRating_CreatedAt :: time
  IndicativeRating_UpdatedAt :: time

record MovieImage =
  MovieImage_ID :: uuid
  MovieImage_MovieID :: uuid
  MovieImage_ImageURL :: string
  MovieImage_CloudFlareID :: string
  MovieImage_CreatedAt :: time
  MovieImage_UpdatedAt :: time

record Movie =
  Movie_ID :: uuid
  Movie_IndicativeRatingID :: uuid
  Movie_UserID :: uuid
  Movie_Title :: string
  Movie_Duration :: int
  Movie_User :: User
  Movie_IndicativeRating :: IndicativeRating
  Movie_CreatedAt :: time
  Movie_UpdatedAt :: time
  Movie_Images :: "MovieImage list"

record MovieImageUploadTask =
  UploadTask_MovieID :: uuid
  UploadTask_Image :: bytes
  UploadTask_UserID :: uuid

record MovieImageDeleteTask =
  DeleteTask_CloudFlareID :: string

text \<open>
  A \<open>multipart.FileHeader\<close>: besides its name and size it stands for the bytes the file
  yields when it is opened and read, \<open>None\<close> when that fails.
\<close>

record FileHeader =
  FileHeader_Filename :: string
  FileHeader_Size :: int
  FileHeader_Content :: "bytes option"

record MoviePayload =
  MoviePayload_Images :: "FileHeader list"
  MoviePayload_IndicativeRatingID :: uuid
  MoviePayload_Title :: string
  MoviePayload_Duration :: int

text \<open>The update payload carries pointers: \<open>None\<close> is the nil pointer.\<close>

record MovieUpdatePayload =
  MovieUpdatePayload_Title :: "string option"
  MovieUpdatePayload_Duration :: "int option"
  MovieUpdatePayload_IndicativeRatingID :: "uuid option"

record IndicativeRatingResponse =
  IndicativeRatingResponse_ID :: uuid
  IndicativeRatingResponse_Description :: string
  IndicativeRatingResponse_ImageURL :: string

record MovieImageResponse =
  MovieImageResponse_ID :: uuid
  MovieImageResponse_ImageURL :: string

record MovieResponse =
  MovieResponse_ID :: uuid
  MovieResponse_Title :: string
  MovieResponse_Duration :: int
  MovieResponse_IndicativeRating :: "IndicativeRatingResponse option"
  MovieResponse_MovieImages :: "MovieImageResponse list"

text \<open>The \<open>Rows\<close> field of a pagination has type \<open>any\<close>.\<close>

datatype rows = NoRows | MovieRows "Movie list" | MovieResponseRows "MovieResponse list"

record Pagination =
  Pagination_Limit :: int
  Pagination_Page :: int
  Pagination_Sort :: string
  Pagination_TotalRows :: int
  Pagination_TotalPages :: int
  Pagination_Rows :: rows

record Session =
  Session_UserID :: uuid

record CloudFlareResponse =
  CloudFlareResponse_URL :: string
  CloudFlareResponse_ID :: string

record UserPayload =
  UserPayload_FirstName :: string
  UserPayload_LastName :: string
  UserPayload_Email :: string
  UserPayload_Password :: string
  UserPayload_BirthDate :: time

record SignInPayload =
  SignInPayload_Email :: string
  SignInPayload_Password :: string

record SignInResponse =
  SignInResponse_Token :: string

text \<open>
  What a \<open>context.Context\<close> holds under \<open>domain.SessionKey\<close>: nothing, a value of another
  type, or a \<open>*domain.Session\<close> (possibly the nil pointer).
\<close>

datatype Context = NoSessionValue | ForeignSessionValue | SessionValue "Session option"

text \<open>
  \<open>session, ok := ctx.Value(domain.SessionKey).(*domain.Session)\<close> followed by the test
  \<open>!ok || session == nil\<close>: the session the operation goes on with, \<open>None\<close> when the
  test sends it to the early return.
\<close>

definition ctx_session :: "Context \<Rightarrow> Session option" where
  "ctx_session ctx =
     (case ctx of
        NoSessionValue \<Rightarrow> None
      | ForeignSessionValue \<Rightarrow> None
      | SessionValue None \<Rightarrow> None
      | SessionValue (Some session) \<Rightarrow> Some session)"

definition ToIndicativeRatingResponse :: "IndicativeRating \<Rightarrow> IndicativeRatingResponse" where
  "ToIndicativeRatingResponse i =
     \<lparr>IndicativeRatingResponse_ID = IndicativeRating_ID i,
      IndicativeRatingResponse_Description = IndicativeRating_Description i,
      IndicativeRatingResponse_ImageURL = IndicativeRating_ImageURL i\<rparr>"

definition ToMovieImageResponse :: "MovieImage \<Rightarrow> MovieImageResponse" where
  "ToMovieImageResponse m =
     \<lparr>MovieImageResponse_ID = MovieImage_ID m,
      MovieImageResponse_ImageURL = MovieImage_ImageURL m\<rparr>"

definition ToMovieResponse :: "Movie \<Rightarrow> MovieResponse" where
  "ToMovieResponse m =
     \<lparr>MovieResponse_ID = Movie_ID m,
      MovieResponse_Title = Movie_Title m,
      MovieResponse_Duration = Movie_Duration m,
      MovieResponse_IndicativeRating =
        Some (ToIndicativeRatingResponse (Movie_IndicativeRating m)),
      MovieResponse_MovieImages =
        (if length (Movie_Images m) > 0 then map ToMovieImageResponse (Movie_Images m)
         else [])\<rparr>"

text \<open>Zero values of Go: \<open>uuid.Nil\<close>, \<open>time.Time{}\<close> and the empty structs.\<close>

definition uuid_Nil :: uuid where
  "uuid_Nil = ''00000000-0000-0000-0000-000000000000''"

definition time_zero :: time where
  "time_zero = - 62135596800"

definition zero_User :: User where
  "zero_User =
     \<lparr>User_ID = uuid_Nil, User_FirstName = [], User_LastName = [], User_Email = [],
      User_PasswordHash = [], User_BirthDate = time_zero, User_CreatedAt = time_zero,
      User_UpdatedAt = time_zero\<rparr>"

definition zero_IndicativeRating :: IndicativeRating where
  "zero_IndicativeRating =
     \<lparr>IndicativeRating_ID = uuid_Nil, IndicativeRating_Description = [],
      IndicativeRating_ImageURL = [], IndicativeRating_CreatedAt = time_zero,
      IndicativeRating_UpdatedAt = time_zero\<rparr>"

text \<open>\<open>%d\<close> of \<open>fmt.Sprintf\<close>: an integer in decimal.\<close>

definition digit :: "nat \<Rightarrow> char" where
  "digit n = ''0123456789'' ! (n mod 10)"

fun string_of_nat :: "nat \<Rightarrow> string" where
  "string_of_nat n =
     (if n < 10 then [digit n] else string_of_nat (n div 10) @ [digit n])"

definition string_of_int :: "int \<Rightarrow> string" where
  "string_of_int i = (if i < 0 then CHR ''-'' # string_of_nat (nat (- i)) else string_of_nat (nat i))"

section \<open>Collaborators of the movie service\<close>

text \<open>
  The movie service reaches the database, the task queue and the remote object store
  only through the interfaces \<open>domain.MovieRepository\<close> and \<open>client.CloudFlareService\<close>,
  and the outside world through \<open>utils.ConvertImageToBytes\<close>, \<open>uuid.New\<close> and
  \<open>time.Now\<close>. Their implementations are parameters of the model: each is a function on
  a state \<open>'s\<close> of the outside world that returns its result and the new state. A Go
  result \<open>(value, error)\<close> is \<open>Inl\<close> of the error when the error is not nil; a nil pointer
  or nil error is \<open>None\<close>.
\<close>

record 's movie_env =
  GetIndicativeRatingByID :: "uuid \<Rightarrow> 's \<Rightarrow> (err + IndicativeRating option) \<times> 's"
  MovieRepository_Create :: "Movie \<Rightarrow> 's \<Rightarrow> err option \<times> 's"
  AddUploadTaskToQueue :: "MovieImageUploadTask \<Rightarrow> 's \<Rightarrow> err option \<times> 's"
  GetALlByUserID :: "uuid \<Rightarrow> Pagination \<Rightarrow> 's \<Rightarrow> (err + Pagination option) \<times> 's"
  GetByID :: "uuid \<Rightarrow> bool \<Rightarrow> 's \<Rightarrow> (err + Movie option) \<times> 's"
  MovieRepository_Update :: "Movie \<Rightarrow> 's \<Rightarrow> err option \<times> 's"
  AddDeleteTaskToQueue :: "MovieImageDeleteTask \<Rightarrow> 's \<Rightarrow> err option \<times> 's"
  CreateMovieImage :: "MovieImage \<Rightarrow> 's \<Rightarrow> err option \<times> 's"
  DeleteMovieImage :: "string \<Rightarrow> 's \<Rightarrow> err option \<times> 's"
  UploadImage :: "bytes \<Rightarrow> string \<Rightarrow> 's \<Rightarrow> (err + CloudFlareResponse) \<times> 's"
  DeleteImage :: "string \<Rightarrow> 's \<Rightarrow> err option \<times> 's"
  ConvertImageToBytes :: "FileHeader \<Rightarrow> 's \<Rightarrow> (err + bytes) \<times> 's"
  uuid_New :: "'s \<Rightarrow> uuid \<times> 's"
  time_Now :: "'s \<Rightarrow> time \<times> 's"

section \<open>The movie service (package service)\<close>

text \<open>
  The operations below are those of the complete movie service. The sources also hold
  an earlier draft of the same file, whose \<open>Create\<close> only logs and returns \<open>(nil, nil)\<close>;
  it is not modelled.
\<close>

text \<open>\<open>MoviePayload.ToMovie\<close>: the struct literal calls \<open>uuid.New()\<close>, then \<open>time.Now()\<close>.\<close>

definition ToMovie :: "'s movie_env \<Rightarrow> MoviePayload \<Rightarrow> uuid \<Rightarrow> 's \<Rightarrow> Movie \<times> 's" where
  "ToMovie d payload userID s =
     (case uuid_New d s of (newID, s1) \<Rightarrow>
      (case time_Now d s1 of (now, s2) \<Rightarrow>
        (\<lparr>Movie_ID = newID,
          Movie_IndicativeRatingID = MoviePayload_IndicativeRatingID payload,
          Movie_UserID = userID,
          Movie_Title = MoviePayload_Title payload,
          Movie_Duration = MoviePayload_Duration payload,
          Movie_User = zero_User,
          Movie_IndicativeRating = zero_IndicativeRating,
          Movie_CreatedAt = now,
          Movie_UpdatedAt = time_zero,
          Movie_Images = []\<rparr>, s2)))"

text \<open>
  The loop of \<open>Create\<close> over \<open>payload.Images\<close>: a conversion error is logged and the loop
  continues with the next image; the error of the push is logged and dropped.
\<close>

fun Create_images ::
  "'s movie_env \<Rightarrow> Movie \<Rightarrow> Session \<Rightarrow> FileHeader list \<Rightarrow> 's \<Rightarrow> 's" where
  "Create_images d movie session [] s = s"
| "Create_images d movie session (img # images) s =
     (case ConvertImageToBytes d img s of
        (Inl e, s1) \<Rightarrow> Create_images d movie session images s1
      | (Inr imageBytes, s1) \<Rightarrow>
          (case AddUploadTaskToQueue d
                  \<lparr>UploadTask_MovieID = Movie_ID movie,
                   UploadTask_Image = imageBytes,
                   UploadTask_UserID = Session_UserID session\<rparr> s1 of
             (_, s2) \<Rightarrow> Create_images d movie session images s2))"

definition movieService_Create ::
  "'s movie_env \<Rightarrow> Context \<Rightarrow> MoviePayload \<Rightarrow> 's \<Rightarrow> (err + MovieResponse) \<times> 's" where
  "movieService_Create d ctx payload s =
     (case ctx_session ctx of
        None \<Rightarrow> (Inl ErrUserNotFoundInContext, s)
      | Some session \<Rightarrow>
          (case GetIndicativeRatingByID d (MoviePayload_IndicativeRatingID payload) s of
             (Inl e, s1) \<Rightarrow> (Inl (Errorf ''error to get indicative rating by id'' e), s1)
           | (Inr None, s1) \<Rightarrow> (Inl ErrIndicativeRatingNotFound, s1)
           | (Inr (Some indicativeRating), s1) \<Rightarrow>
               (case ToMovie d payload (Session_UserID session) s1 of (movie, s2) \<Rightarrow>
                 (case MovieRepository_Create d movie s2 of
                    (Some e, s3) \<Rightarrow> (Inl (Errorf ''error to create movie'' e), s3)
                  | (None, s3) \<Rightarrow>
                      (Inr ((ToMovieResponse movie)
                              \<lparr>MovieResponse_IndicativeRating :=
                                 Some (ToIndicativeRatingResponse indicativeRating)\<rparr>),
                       Create_images d movie session (MoviePayload_Images payload) s3)))))"

definition movieService_GetAllByUserID ::
  "'s movie_env \<Rightarrow> Context \<Rightarrow> Pagination \<Rightarrow> 's \<Rightarrow> (err + Pagination) \<times> 's" where
  "movieService_GetAllByUserID d ctx pagination s =
     (case ctx_session ctx of
        None \<Rightarrow> (Inl ErrUserNotFoundInContext, s)
      | Some session \<Rightarrow>
          (case GetALlByUserID d (Session_UserID session) pagination s of
             (Inl e, s1) \<Rightarrow> (Inl (Errorf ''error to get all movies by user id. error:'' e), s1)
           | (Inr None, s1) \<Rightarrow> (Inl ErrMoviesNotFoundByUserID, s1)
           | (Inr (Some moviesPagination), s1) \<Rightarrow>
               (case Pagination_Rows moviesPagination of
                  MovieRows movies \<Rightarrow>
                    (Inr (moviesPagination
                            \<lparr>Pagination_Rows := MovieResponseRows (map ToMovieResponse movies)\<rparr>),
                     s1)
                | _ \<Rightarrow> (Inl (Panic ''interface conversion''), s1))))"

text \<open>
  The first block of \<open>Update\<close> after the ownership test: when the payload names a new
  indicative rating it is looked up and stored in the movie's \<open>IndicativeRating\<close> field.
\<close>

definition Update_rating ::
  "'s movie_env \<Rightarrow> MovieUpdatePayload \<Rightarrow> Movie \<Rightarrow> 's \<Rightarrow> (err + Movie) \<times> 's" where
  "Update_rating d payload movie s =
     (case MovieUpdatePayload_IndicativeRatingID payload of
        None \<Rightarrow> (Inr movie, s)
      | Some ratingID \<Rightarrow>
          (case GetIndicativeRatingByID d ratingID s of
             (Inl e, s1) \<Rightarrow> (Inl (Errorf ''error to get indicative rating:'' e), s1)
           | (Inr None, s1) \<Rightarrow> (Inl ErrIndicativeRatingNotFound, s1)
           | (Inr (Some indicativeRating), s1) \<Rightarrow>
               (Inr (movie\<lparr>Movie_IndicativeRating := indicativeRating\<rparr>), s1)))"

definition Update_title :: "MovieUpdatePayload \<Rightarrow> Movie \<Rightarrow> Movie" where
  "Update_title payload movie =
     (case MovieUpdatePayload_Title payload of
        None \<Rightarrow> movie
      | Some title \<Rightarrow> movie\<lparr>Movie_Title := title\<rparr>)"

definition Update_duration :: "MovieUpdatePayload \<Rightarrow> Movie \<Rightarrow> Movie" where
  "Update_duration payload movie =
     (case MovieUpdatePayload_Duration payload of
        None \<Rightarrow> movie
      | Some duration \<Rightarrow> movie\<lparr>Movie_Duration := duration\<rparr>)"

definition movieService_Update ::
  "'s movie_env \<Rightarrow> Context \<Rightarrow> uuid \<Rightarrow> MovieUpdatePayload \<Rightarrow> 's \<Rightarrow> (err + MovieResponse) \<times> 's" where
  "movieService_Update d ctx ID payload s =
     (case ctx_session ctx of
        None \<Rightarrow> (Inl ErrUserNotFoundInContext, s)
      | Some session \<Rightarrow>
          (case GetByID d ID True s of
             (Inl e, s1) \<Rightarrow> (Inl (Errorf ''error to get movie by id:'' e), s1)
           | (Inr None, s1) \<Rightarrow> (Inl ErrMoviesNotFound, s1)
           | (Inr (Some movie), s1) \<Rightarrow>
               if Movie_UserID movie \<noteq> Session_UserID session
               then (Inl ErrMovieNotBelongUser, s1)
               else
                 (case Update_rating d payload movie s1 of
                    (Inl e, s2) \<Rightarrow> (Inl e, s2)
                  | (Inr movie1, s2) \<Rightarrow>
                      (let movie3 = Update_duration payload (Update_title payload movie1) in
                       (case MovieRepository_Update d movie3 s2 of
                          (Some e, s3) \<Rightarrow> (Inl (Errorf ''error to update movie:'' e), s3)
                        | (None, s3) \<Rightarrow> (Inr (ToMovieResponse movie3), s3))))))"

text \<open>The loop of \<open>Delete\<close> over \<open>movie.Images\<close>; the error of a push is logged and dropped.\<close>

fun Delete_images :: "'s movie_env \<Rightarrow> MovieImage list \<Rightarrow> 's \<Rightarrow> 's" where
  "Delete_images d [] s = s"
| "Delete_images d (img # images) s =
     (case AddDeleteTaskToQueue d
             \<lparr>DeleteTask_CloudFlareID = MovieImage_CloudFlareID img\<rparr> s of
        (_, s1) \<Rightarrow> Delete_images d images s1)"

definition movieService_Delete ::
  "'s movie_env \<Rightarrow> Context \<Rightarrow> uuid \<Rightarrow> 's \<Rightarrow> err option \<times> 's" where
  "movieService_Delete d ctx ID s =
     (case ctx_session ctx of
        None \<Rightarrow> (Some ErrUserNotFoundInContext, s)
      | Some session \<Rightarrow>
          (case GetByID d ID True s of
             (Inl e, s1) \<Rightarrow> (Some (Errorf ''error to get movies by id error:'' e), s1)
           | (Inr None, s1) \<Rightarrow> (Some ErrMoviesNotFound, s1)
           | (Inr (Some movie), s1) \<Rightarrow>
               if Movie_UserID movie \<noteq> Session_UserID session
               then (Some ErrMovieNotBelongUser, s1)
               else (None, Delete_images d (Movie_Images movie) s1)))"

definition upload_filename :: "uuid \<Rightarrow> time \<Rightarrow> string" where
  "upload_filename movieID now = ''movie_'' @ movieID @ ''_image_'' @ string_of_int now @ ''.jpg''"

definition movieService_ProcessUploadQueue ::
  "'s movie_env \<Rightarrow> MovieImageUploadTask \<Rightarrow> 's \<Rightarrow> err option \<times> 's" where
  "movieService_ProcessUploadQueue d task s =
     (case time_Now d s of (now, s1) \<Rightarrow>
       (case UploadImage d (UploadTask_Image task)
               (upload_filename (UploadTask_MovieID task) now) s1 of
          (Inl e, s2) \<Rightarrow> (Some (Errorf ''error to upload image to Cloudflare'' e), s2)
        | (Inr response, s2) \<Rightarrow>
            (case uuid_New d s2 of (newID, s3) \<Rightarrow>
              (case CreateMovieImage d
                      \<lparr>MovieImage_ID = newID,
                       MovieImage_MovieID = UploadTask_MovieID task,
                       MovieImage_ImageURL = CloudFlareResponse_URL response,
                       MovieImage_CloudFlareID = CloudFlareResponse_ID response,
                       MovieImage_CreatedAt = time_zero,
                       MovieImage_UpdatedAt = time_zero\<rparr> s3 of
                 (Some e, s4) \<Rightarrow>
                   (Some (Errorf ''error to save movie image to the database error:'' e), s4)
               | (None, s4) \<Rightarrow> (None, s4)))))"

definition movieService_ProcessDeleteQueue ::
  "'s movie_env \<Rightarrow> MovieImageDeleteTask \<Rightarrow> 's \<Rightarrow> err option \<times> 's" where
  "movieService_ProcessDeleteQueue d task s =
     (case DeleteImage d (DeleteTask_CloudFlareID task) s of
        (Some e, s1) \<Rightarrow> (Some (Errorf ''error to delete image to Cloudflare'' e), s1)
      | (None, s1) \<Rightarrow>
          (case DeleteMovieImage d (DeleteTask_CloudFlareID task) s1 of
             (Some e, s2) \<Rightarrow>
               (Some (Errorf ''error to delete movie image to the database error:'' e), s2)
           | (None, s2) \<Rightarrow> (None, s2)))"

section \<open>Recording the calls to the collaborators\<close>

text \<open>
  One event per call the movie service makes through its environment, with the
  arguments of the call and what the collaborator returned.
\<close>

datatype movie_event =
    EvGetIndicativeRatingByID uuid "err + IndicativeRating option"
  | EvMovieCreate Movie "err option"
  | EvAddUploadTaskToQueue MovieImageUploadTask "err option"
  | EvGetALlByUserID uuid Pagination "err + Pagination option"
  | EvGetByID uuid bool "err + Movie option"
  | EvMovieUpdate Movie "err option"
  | EvAddDeleteTaskToQueue MovieImageDeleteTask "err option"
  | EvCreateMovieImage MovieImage "err option"
  | EvDeleteMovieImage string "err option"
  | EvUploadImage bytes string "err + CloudFlareResponse"
  | EvDeleteImage string "err option"
  | EvConvertImageToBytes FileHeader "err + bytes"
  | EvUuidNew uuid
  | EvTimeNow time

text \<open>
  \<open>traced d\<close> behaves as the environment \<open>d\<close> and appends every call to a trace kept
  beside the state of \<open>d\<close>. Run on \<open>traced d\<close> from an empty trace, an operation of the
  service returns the list of all the calls it made, in order.
\<close>

definition record_call ::
  "('r \<Rightarrow> 'e) \<Rightarrow> ('s \<Rightarrow> 'r \<times> 's) \<Rightarrow> 's \<times> 'e list \<Rightarrow> 'r \<times> ('s \<times> 'e list)" where
  "record_call ev f st = (case st of (s, tr) \<Rightarrow> (case f s of (r, s') \<Rightarrow> (r, (s', tr @ [ev r]))))"

definition traced :: "'s movie_env \<Rightarrow> ('s \<times> movie_event list) movie_env" where
  "traced d =
     \<lparr>GetIndicativeRatingByID =
        (\<lambda>ratingID. record_call (EvGetIndicativeRatingByID ratingID) (GetIndicativeRatingByID d ratingID)),
      MovieRepository_Create =
        (\<lambda>movie. record_call (EvMovieCreate movie) (MovieRepository_Create d movie)),
      AddUploadTaskToQueue =
        (\<lambda>task. record_call (EvAddUploadTaskToQueue task) (AddUploadTaskToQueue d task)),
      GetALlByUserID =
        (\<lambda>userID pagination. record_call (EvGetALlByUserID userID pagination)
                                  (GetALlByUserID d userID pagination)),
      GetByID =
        (\<lambda>ID preload. record_call (EvGetByID ID preload) (GetByID d ID preload)),
      MovieRepository_Update =
        (\<lambda>movie. record_call (EvMovieUpdate movie) (MovieRepository_Update d movie)),
      AddDeleteTaskToQueue =
        (\<lambda>task. record_call (EvAddDeleteTaskToQueue task) (AddDeleteTaskToQueue d task)),
      CreateMovieImage =
        (\<lambda>movieImage. record_call (EvCreateMovieImage movieImage) (CreateMovieImage d movieImage)),
      DeleteMovieImage =
        (\<lambda>cloudFlareID. record_call (EvDeleteMovieImage cloudFlareID) (DeleteMovieImage d cloudFlareID)),
      UploadImage =
        (\<lambda>imageBytes filename. record_call (EvUploadImage imageBytes filename)
                                     (UploadImage d imageBytes filename)),
      DeleteImage =
        (\<lambda>cloudFlareID. record_call (EvDeleteImage cloudFlareID) (DeleteImage d cloudFlareID)),
      ConvertImageToBytes =
        (\<lambda>file. record_call (EvConvertImageToBytes file) (ConvertImageToBytes d file)),
      uuid_New = record_call EvUuidNew (uuid_New d),
      time_Now = record_call EvTimeNow (time_Now d)\<rparr>"

section \<open>The user repository (package repository)\<close>

text \<open>
  The two queries the user repository sends through the ORM, as parameters:
  \<open>db.Where("email = ?", email).First(&user)\<close> and \<open>db.Create(&user)\<close>.
\<close>

record 's gorm_db =
  gorm_First_User_by_email :: "string \<Rightarrow> 's \<Rightarrow> (err + User) \<times> 's"
  gorm_Create_User :: "User \<Rightarrow> 's \<Rightarrow> err option \<times> 's"

text \<open>\<open>errors.Is\<close>: the error is the target or wraps it.\<close>

fun errors_Is :: "err \<Rightarrow> err \<Rightarrow> bool" where
  "errors_Is (Errorf p e) target = (Errorf p e = target \<or> errors_Is e target)"
| "errors_Is e target = (e = target)"

definition userRepository_Create :: "'s gorm_db \<Rightarrow> User \<Rightarrow> 's \<Rightarrow> err option \<times> 's" where
  "userRepository_Create db user s =
     (case gorm_Create_User db user s of
        (Some e, s1) \<Rightarrow> (Some e, s1)
      | (None, s1) \<Rightarrow> (None, s1))"

definition userRepository_GetByEmail ::
  "'s gorm_db \<Rightarrow> string \<Rightarrow> 's \<Rightarrow> (err + User option) \<times> 's" where
  "userRepository_GetByEmail db email s =
     (case gorm_First_User_by_email db email s of
        (Inl e, s1) \<Rightarrow>
          if errors_Is e ErrRecordNotFound then (Inr None, s1) else (Inl e, s1)
      | (Inr user, s1) \<Rightarrow> (Inr (Some user), s1))"

section \<open>The user service (package service)\<close>

text \<open>
  The collaborators of the user service: \<open>domain.UserRepository\<close>,
  \<open>domain.SessionService\<close>, the functions \<open>HashPassword\<close> and \<open>CheckPassword\<close> of package
  secure, and \<open>UserPayload.ToUser\<close>.
\<close>

record 's user_env =
  UserRepository_GetByEmail :: "string \<Rightarrow> 's \<Rightarrow> (err + User option) \<times> 's"
  UserRepository_Create :: "User \<Rightarrow> 's \<Rightarrow> err option \<times> 's"
  HashPassword :: "string \<Rightarrow> 's \<Rightarrow> (err + string) \<times> 's"
  CheckPassword :: "string \<Rightarrow> string \<Rightarrow> 's \<Rightarrow> err option \<times> 's"
  ToUser :: "UserPayload \<Rightarrow> string \<Rightarrow> 's \<Rightarrow> User \<times> 's"
  SessionService_Create :: "User \<Rightarrow> 's \<Rightarrow> (err + string) \<times> 's"

definition userService_Create :: "'s user_env \<Rightarrow> UserPayload \<Rightarrow> 's \<Rightarrow> err option \<times> 's" where
  "userService_Create u payload s =
     (case UserRepository_GetByEmail u (UserPayload_Email payload) s of
        (Inl e, s1) \<Rightarrow> (Some ErrGetUserByEmail, s1)
      | (Inr (Some user), s1) \<Rightarrow> (Some ErrEmailAlreadyRegister, s1)
      | (Inr None, s1) \<Rightarrow>
          (case HashPassword u (UserPayload_Password payload) s1 of
             (Inl e, s2) \<Rightarrow> (Some ErrHashingPassword, s2)
           | (Inr passwordHash, s2) \<Rightarrow>
               (case ToUser u payload passwordHash s2 of (user, s3) \<Rightarrow>
                 (case UserRepository_Create u user s3 of
                    (Some e, s4) \<Rightarrow> (Some ErrCreateUser, s4)
                  | (None, s4) \<Rightarrow> (None, s4)))))"

definition userService_SignIn ::
  "'s user_env \<Rightarrow> SignInPayload \<Rightarrow> 's \<Rightarrow> (err + SignInResponse) \<times> 's" where
  "userService_SignIn u payload s =
     (case UserRepository_GetByEmail u (SignInPayload_Email payload) s of
        (Inl e, s1) \<Rightarrow> (Inl ErrGetUserByEmail, s1)
      | (Inr None, s1) \<Rightarrow> (Inl ErrUserNotFound, s1)
      | (Inr (Some user), s1) \<Rightarrow>
          (case CheckPassword u (User_PasswordHash user) (SignInPayload_Password payload) s1 of
             (Some e, s2) \<Rightarrow> (Inl ErrInvalidPassword, s2)
           | (None, s2) \<Rightarrow>
               (case SessionService_Create u user s2 of
                  (Inl e, s3) \<Rightarrow> (Inl ErrCreateSession, s3)
                | (Inr token, s3) \<Rightarrow> (Inr \<lparr>SignInResponse_Token = token\<rparr>, s3))))"

datatype user_event =
    EvGetByEmail string "err + User option"
  | EvUserCreate User "err option"
  | EvHashPassword string "err + string"
  | EvCheckPassword string string "err option"
  | EvToUser UserPayload string User
  | EvSessionCreate User "err + string"

definition traced_user :: "'s user_env \<Rightarrow> ('s \<times> user_event list) user_env" where
  "traced_user u =
     \<lparr>UserRepository_GetByEmail =
        (\<lambda>email. record_call (EvGetByEmail email) (UserRepository_GetByEmail u email)),
      UserRepository_Create =
        (\<lambda>user. record_call (EvUserCreate user) (UserRepository_Create u user)),
      HashPassword =
        (\<lambda>password. record_call (EvHashPassword password) (HashPassword u password)),
      CheckPassword =
        (\<lambda>passwordHash password. record_call (EvCheckPassword passwordHash password)
                                     (CheckPassword u passwordHash password)),
      ToUser =
        (\<lambda>payload passwordHash. record_call (EvToUser payload passwordHash)
                                    (ToUser u payload passwordHash)),
      SessionService_Create =
        (\<lambda>user. record_call (EvSessionCreate user) (SessionService_Create u user))\<rparr>"

section \<open>An in-memory database, queue and remote store\<close>

text \<open>
  Modelled from the spec: the implementations of \<open>domain.MovieRepository\<close> and
  \<open>client.CloudFlareService\<close> are not among the sources. The tables \<open>IndicativeRating\<close>,
  \<open>Movie\<close> and \<open>MovieImage\<close> are lists of rows, the two task queues are lists (push at
  the back, pull at the front), and the remote object store maps the identifiers it
  hands out to the bytes uploaded (upload(bytes, filename) gives {url, id}; delete(id)
  succeeds or fails). Each of the three collaborators can be switched to fail every
  call, and a failed call changes nothing.
\<close>

record world =
  db_ratings :: "IndicativeRating list"
  db_movies :: "Movie list"
  db_images :: "MovieImage list"
  upload_queue :: "MovieImageUploadTask list"
  delete_queue :: "MovieImageDeleteTask list"
  remote_objects :: "(string \<times> bytes) list"
  remote_counter :: nat
  uuid_counter :: nat
  clock :: time
  db_fails :: bool
  queue_fails :: bool
  remote_fails :: bool

definition db_error :: err where
  "db_error = External ''database unavailable''"

definition queue_error :: err where
  "queue_error = External ''queue unavailable''"

definition remote_error :: err where
  "remote_error = External ''remote store unavailable''"

definition preload_images :: "world \<Rightarrow> Movie \<Rightarrow> Movie" where
  "preload_images w movie =
     movie\<lparr>Movie_Images := filter (\<lambda>i. MovieImage_MovieID i = Movie_ID movie) (db_images w)\<rparr>"

definition remote_id :: "nat \<Rightarrow> string" where
  "remote_id n = ''cf-'' @ string_of_nat n"

definition remote_url :: "string \<Rightarrow> string" where
  "remote_url cloudFlareID = ''https://imagedelivery.example/'' @ cloudFlareID @ ''/public''"

definition mem :: "world movie_env" where
  "mem =
     \<lparr>GetIndicativeRatingByID =
        (\<lambda>ratingID w.
           if db_fails w then (Inl db_error, w)
           else (Inr (find (\<lambda>r. IndicativeRating_ID r = ratingID) (db_ratings w)), w)),
      MovieRepository_Create =
        (\<lambda>movie w.
           if db_fails w then (Some db_error, w)
           else (None, w\<lparr>db_movies := db_movies w @ [movie]\<rparr>)),
      AddUploadTaskToQueue =
        (\<lambda>task w.
           if queue_fails w then (Some queue_error, w)
           else (None, w\<lparr>upload_queue := upload_queue w @ [task]\<rparr>)),
      GetALlByUserID =
        (\<lambda>userID pagination w.
           if db_fails w then (Inl db_error, w)
           else
             (let movies = filter (\<lambda>m. Movie_UserID m = userID) (db_movies w) in
              (Inr (Some (pagination
                            \<lparr>Pagination_TotalRows := int (length movies),
                             Pagination_Rows := MovieRows (map (preload_images w) movies)\<rparr>)),
               w))),
      GetByID =
        (\<lambda>ID preload w.
           if db_fails w then (Inl db_error, w)
           else
             (Inr (map_option (\<lambda>m. if preload then preload_images w m else m)
                     (find (\<lambda>m. Movie_ID m = ID) (db_movies w))), w)),
      MovieRepository_Update =
        (\<lambda>movie w.
           if db_fails w then (Some db_error, w)
           else
             (None, w\<lparr>db_movies :=
                        map (\<lambda>m. if Movie_ID m = Movie_ID movie then movie else m)
                          (db_movies w)\<rparr>)),
      AddDeleteTaskToQueue =
        (\<lambda>task w.
           if queue_fails w then (Some queue_error, w)
           else (None, w\<lparr>delete_queue := delete_queue w @ [task]\<rparr>)),
      CreateMovieImage =
        (\<lambda>movieImage w.
           if db_fails w then (Some db_error, w)
           else (None, w\<lparr>db_images := db_images w @ [movieImage]\<rparr>)),
      DeleteMovieImage =
        (\<lambda>cloudFlareID w.
           if db_fails w then (Some db_error, w)
           else
             (None, w\<lparr>db_images :=
                        filter (\<lambda>i. MovieImage_CloudFlareID i \<noteq> cloudFlareID) (db_images w)\<rparr>)),
      UploadImage =
        (\<lambda>imageBytes filename w.
           if remote_fails w then (Inl remote_error, w)
           else
             (Inr \<lparr>CloudFlareResponse_URL = remote_url (remote_id (remote_counter w)),
                   CloudFlareResponse_ID = remote_id (remote_counter w)\<rparr>,
              w\<lparr>remote_objects := remote_objects w @ [(remote_id (remote_counter w), imageBytes)],
                remote_counter := Suc (remote_counter w)\<rparr>)),
      DeleteImage =
        (\<lambda>cloudFlareID w.
           if remote_fails w then (Some remote_error, w)
           else
             (None, w\<lparr>remote_objects :=
                        filter (\<lambda>obj. fst obj \<noteq> cloudFlareID) (remote_objects w)\<rparr>)),
      ConvertImageToBytes =
        (\<lambda>file w.
           (case FileHeader_Content file of
              None \<Rightarrow> (Inl (External ''cannot read the file''), w)
            | Some imageBytes \<Rightarrow> (Inr imageBytes, w))),
      uuid_New =
        (\<lambda>w. (''uuid-'' @ string_of_nat (uuid_counter w), w\<lparr>uuid_counter := Suc (uuid_counter w)\<rparr>)),
      time_Now = (\<lambda>w. (clock w, w))\<rparr>"

text \<open>
  Modelled from the spec: the queue worker is not among the sources. It pulls one
  task from the front of the upload queue and hands it to \<open>ProcessUploadQueue\<close>; an
  error of the task is logged and the worker goes on with the next task, until the
  queue is empty. The worker runs on the recording environment, so that it returns the
  calls the consumer made.
\<close>

definition GetNextUploadTaskFromQueue :: "world \<Rightarrow> MovieImageUploadTask option \<times> world" where
  "GetNextUploadTaskFromQueue w =
     (case upload_queue w of
        [] \<Rightarrow> (None, w)
      | task # tasks \<Rightarrow> (Some task, w\<lparr>upload_queue := tasks\<rparr>))"

function upload_worker :: "world \<times> movie_event list \<Rightarrow> world \<times> movie_event list" where
  "upload_worker (w, tr) =
     (case GetNextUploadTaskFromQueue w of
        (None, w1) \<Rightarrow> (w1, tr)
      | (Some task, w1) \<Rightarrow>
          upload_worker (snd (movieService_ProcessUploadQueue (traced mem) task (w1, tr))))"
  by pat_completeness auto
termination
proof (relation "measure (\<lambda>st. length (upload_queue (fst st)))")
  show "wf (measure (\<lambda>st. length (upload_queue (fst st))))"
    by simp
next
  fix w :: world and tr :: "movie_event list" and x task w1
  assume pulled: "(x, w1) = GetNextUploadTaskFromQueue w" and some: "x = Some task"
  have shorter: "length (upload_queue w1) < length (upload_queue w)"
    using pulled some by (auto simp: GetNextUploadTaskFromQueue_def split: list.splits)
  have same: "upload_queue (fst (snd (movieService_ProcessUploadQueue (traced mem) task (w1, tr))))
      = upload_queue w1"
    by (simp add: movieService_ProcessUploadQueue_def traced_def record_call_def mem_def
        split: prod.splits sum.splits option.splits if_splits)
  show "(snd (movieService_ProcessUploadQueue (traced mem) task (w1, tr)), w, tr)
      \<in> measure (\<lambda>st. length (upload_queue (fst st)))"
    using shorter same by simp
qed

declare upload_worker.simps [simp del]

section \<open>An in-memory user table and session store\<close>

text \<open>
  Modelled from the spec: the ORM, the session service and package secure are not
  among the sources. The user table is a list of rows, a session is a token stored
  with its user, and a credential hash is recognised by the password it was made from.
\<close>

record user_world =
  users :: "User list"
  sessions :: "(string \<times> User) list"
  token_counter :: nat
  user_uuid_counter :: nat
  user_clock :: time
  user_db_fails :: bool
  cache_fails :: bool

definition mem_gorm :: "user_world gorm_db" where
  "mem_gorm =
     \<lparr>gorm_First_User_by_email =
        (\<lambda>email w.
           if user_db_fails w then (Inl db_error, w)
           else
             (case find (\<lambda>u. User_Email u = email) (users w) of
                None \<Rightarrow> (Inl ErrRecordNotFound, w)
              | Some user \<Rightarrow> (Inr user, w))),
      gorm_Create_User =
        (\<lambda>user w.
           if user_db_fails w then (Some db_error, w)
           else (None, w\<lparr>users := users w @ [user]\<rparr>))\<rparr>"

definition mem_hash :: "string \<Rightarrow> string" where
  "mem_hash password = ''hash:'' @ password"

definition mem_user :: "user_world user_env" where
  "mem_user =
     \<lparr>UserRepository_GetByEmail = userRepository_GetByEmail mem_gorm,
      UserRepository_Create = userRepository_Create mem_gorm,
      HashPassword = (\<lambda>password w. (Inr (mem_hash password), w)),
      CheckPassword =
        (\<lambda>passwordHash password w.
           (if passwordHash = mem_hash password then None
            else Some (External ''hash and password do not match''), w)),
      ToUser =
        (\<lambda>payload passwordHash w.
           (\<lparr>User_ID = ''user-'' @ string_of_nat (user_uuid_counter w),
             User_FirstName = UserPayload_FirstName payload,
             User_LastName = UserPayload_LastName payload,
             User_Email = UserPayload_Email payload,
             User_PasswordHash = passwordHash,
             User_BirthDate = UserPayload_BirthDate payload,
             User_CreatedAt = user_clock w,
             User_UpdatedAt = time_zero\<rparr>,
            w\<lparr>user_uuid_counter := Suc (user_uuid_counter w)\<rparr>)),
      SessionService_Create =
        (\<lambda>user w.
           if cache_fails w then (Inl (External ''cache unavailable''), w)
           else
             (Inr (''token-'' @ string_of_nat (token_counter w)),
              w\<lparr>sessions := sessions w @ [(''token-'' @ string_of_nat (token_counter w), user)],
                token_counter := Suc (token_counter w)\<rparr>))\<rparr>"

section \<open>Upload tasks in a list of calls\<close>

text \<open>
  What can happen to one image in the loop of \<open>Create\<close>: \<open>Inl e\<close>, its conversion failed
  with \<open>e\<close>; \<open>Inr (imageBytes, r)\<close>, it was converted to \<open>imageBytes\<close> and the push of its
  task returned \<open>r\<close>. \<open>image_calls\<close> are the calls of the loop for an image with that
  outcome, and \<open>image_tasks\<close> the task it leaves on the queue: one when the conversion
  and the push both succeeded, none otherwise.
\<close>

type_synonym image_outcome = "err + bytes \<times> err option"

definition image_task :: "Movie \<Rightarrow> Session \<Rightarrow> bytes \<Rightarrow> MovieImageUploadTask" where
  "image_task movie session imageBytes =
     \<lparr>UploadTask_MovieID = Movie_ID movie,
      UploadTask_Image = imageBytes,
      UploadTask_UserID = Session_UserID session\<rparr>"

definition image_calls :: "Movie \<Rightarrow> Session \<Rightarrow> FileHeader \<Rightarrow> image_outcome \<Rightarrow> movie_event list" where
  "image_calls movie session file outcome =
     (case outcome of
        Inl e \<Rightarrow> [EvConvertImageToBytes file (Inl e)]
      | Inr (imageBytes, r) \<Rightarrow>
          [EvConvertImageToBytes file (Inr imageBytes),
           EvAddUploadTaskToQueue (image_task movie session imageBytes) r])"

definition image_tasks :: "Movie \<Rightarrow> Session \<Rightarrow> image_outcome \<Rightarrow> MovieImageUploadTask list" where
  "image_tasks movie session outcome =
     (case outcome of
        Inl e \<Rightarrow> []
      | Inr (imageBytes, None) \<Rightarrow> [image_task movie session imageBytes]
      | Inr (imageBytes, Some e) \<Rightarrow> [])"

text \<open>The upload tasks produced in a list of calls: those whose push returned no error.\<close>

fun produced_tasks :: "movie_event list \<Rightarrow> MovieImageUploadTask list" where
  "produced_tasks [] = []"
| "produced_tasks (EvAddUploadTaskToQueue task None # calls) = task # produced_tasks calls"
| "produced_tasks (call # calls) = produced_tasks calls"

section \<open>Sample data\<close>

definition rating_L :: IndicativeRating where
  "rating_L =
     \<lparr>IndicativeRating_ID = ''rating-L'', IndicativeRating_Description = ''L'',
      IndicativeRating_ImageURL = ''https://img.example/L.png'',
      IndicativeRating_CreatedAt = 1600000000, IndicativeRating_UpdatedAt = time_zero\<rparr>"

definition rating_14 :: IndicativeRating where
  "rating_14 =
     \<lparr>IndicativeRating_ID = ''rating-14'', IndicativeRating_Description = ''14'',
      IndicativeRating_ImageURL = ''https://img.example/14.png'',
      IndicativeRating_CreatedAt = 1600000000, IndicativeRating_UpdatedAt = time_zero\<rparr>"

definition alice :: Session where
  "alice = \<lparr>Session_UserID = ''user-alice''\<rparr>"

definition bob :: Session where
  "bob = \<lparr>Session_UserID = ''user-bob''\<rparr>"

definition still1 :: MovieImage where
  "still1 =
     \<lparr>MovieImage_ID = ''image-1'', MovieImage_MovieID = ''movie-1'',
      MovieImage_ImageURL = ''https://imagedelivery.example/cf-a/public'',
      MovieImage_CloudFlareID = ''cf-a'', MovieImage_CreatedAt = 1650000000,
      MovieImage_UpdatedAt = time_zero\<rparr>"

definition heat :: Movie where
  "heat =
     \<lparr>Movie_ID = ''movie-1'', Movie_IndicativeRatingID = ''rating-L'',
      Movie_UserID = ''user-alice'', Movie_Title = ''Heat'', Movie_Duration = 170,
      Movie_User = zero_User, Movie_IndicativeRating = rating_L,
      Movie_CreatedAt = 1650000000, Movie_UpdatedAt = time_zero, Movie_Images = []\<rparr>"

definition world0 :: world where
  "world0 =
     \<lparr>db_ratings = [rating_L, rating_14], db_movies = [], db_images = [], upload_queue = [],
      delete_queue = [], remote_objects = [], remote_counter = 0, uuid_counter = 0,
      clock = 1700000000, db_fails = False, queue_fails = False, remote_fails = False\<rparr>"

definition world1 :: world where
  "world1 =
     world0\<lparr>db_movies := [heat], db_images := [still1],
            remote_objects := [(''cf-a'', [7, 7, 7])]\<rparr>"

definition poster1 :: FileHeader where
  "poster1 =
     \<lparr>FileHeader_Filename = ''a.jpg'', FileHeader_Size = 2, FileHeader_Content = Some [1, 2]\<rparr>"

definition poster2 :: FileHeader where
  "poster2 =
     \<lparr>FileHeader_Filename = ''b.jpg'', FileHeader_Size = 1, FileHeader_Content = Some [3]\<rparr>"

definition broken_file :: FileHeader where
  "broken_file =
     \<lparr>FileHeader_Filename = ''c.jpg'', FileHeader_Size = 5, FileHeader_Content = None\<rparr>"

definition payload_unknown_rating :: MoviePayload where
  "payload_unknown_rating =
     \<lparr>MoviePayload_Images = [poster1], MoviePayload_IndicativeRatingID = ''rating-18'',
      MoviePayload_Title = ''Heat'', MoviePayload_Duration = 170\<rparr>"

definition payload2 :: MoviePayload where
  "payload2 =
     \<lparr>MoviePayload_Images = [poster1, poster2], MoviePayload_IndicativeRatingID = ''rating-L'',
      MoviePayload_Title = ''Heat'', MoviePayload_Duration = 170\<rparr>"

definition payload3 :: MoviePayload where
  "payload3 =
     \<lparr>MoviePayload_Images = [poster1, broken_file, poster2],
      MoviePayload_IndicativeRatingID = ''rating-L'',
      MoviePayload_Title = ''Heat'', MoviePayload_Duration = 170\<rparr>"

definition upload_task1 :: MovieImageUploadTask where
  "upload_task1 =
     \<lparr>UploadTask_MovieID = ''movie-1'', UploadTask_Image = [1, 2],
      UploadTask_UserID = ''user-alice''\<rparr>"

definition delete_task1 :: MovieImageDeleteTask where
  "delete_task1 = \<lparr>DeleteTask_CloudFlareID = ''cf-a''\<rparr>"

definition retitle :: MovieUpdatePayload where
  "retitle =
     \<lparr>MovieUpdatePayload_Title = Some ''Heat (1995)'', MovieUpdatePayload_Duration = None,
      MovieUpdatePayload_IndicativeRatingID = Some ''rating-14''\<rparr>"

definition alice_user :: User where
  "alice_user =
     \<lparr>User_ID = ''user-alice'', User_FirstName = ''Alice'', User_LastName = ''Doe'',
      User_Email = ''alice@example.com'', User_PasswordHash = mem_hash ''Str0ngP@ssw0rd!'',
      User_BirthDate = 631152000, User_CreatedAt = 1600000000, User_UpdatedAt = time_zero\<rparr>"

definition user_world0 :: user_world where
  "user_world0 =
     \<lparr>users = [alice_user], sessions = [], token_counter = 0, user_uuid_counter = 0,
      user_clock = 1700000000, user_db_fails = False, cache_fails = False\<rparr>"

definition alice_again :: UserPayload where
  "alice_again =
     \<lparr>UserPayload_FirstName = ''Alice'', UserPayload_LastName = ''Other'',
      UserPayload_Email = ''alice@example.com'', UserPayload_Password = ''An0ther!Pass'',
      UserPayload_BirthDate = 631152000\<rparr>"

definition sign_in_ok :: SignInPayload where
  "sign_in_ok =
     \<lparr>SignInPayload_Email = ''alice@example.com'', SignInPayload_Password = ''Str0ngP@ssw0rd!''\<rparr>"

definition sign_in_wrong_password :: SignInPayload where
  "sign_in_wrong_password =
     \<lparr>SignInPayload_Email = ''alice@example.com'', SignInPayload_Password = ''WrongP@ssw0rd''\<rparr>"

definition sign_in_unknown :: SignInPayload where
  "sign_in_unknown =
     \<lparr>SignInPayload_Email = ''nonexistent@example.com'',
      SignInPayload_Password = ''Str0ngP@ssw0rd!''\<rparr>"

definition page1 :: Pagination where
  "page1 =
     \<lparr>Pagination_Limit = 10, Pagination_Page = 1, Pagination_Sort = ''createdAt desc'',
      Pagination_TotalRows = 0, Pagination_TotalPages = 0, Pagination_Rows = NoRows\<rparr>"

definition response0 :: CloudFlareResponse where
  "response0 =
     \<lparr>CloudFlareResponse_URL = ''https://imagedelivery.example/cf-0/public'',
      CloudFlareResponse_ID = ''cf-0''\<rparr>"

definition still2 :: MovieImage where
  "still2 =
     \<lparr>MovieImage_ID = ''uuid-0'', MovieImage_MovieID = ''movie-1'',
      MovieImage_ImageURL = ''https://imagedelivery.example/cf-0/public'',
      MovieImage_CloudFlareID = ''cf-0'', MovieImage_CreatedAt = time_zero,
      MovieImage_UpdatedAt = time_zero\<rparr>"

definition world1_uploaded :: world where
  "world1_uploaded =
     world1\<lparr>remote_objects := [(''cf-a'', [7, 7, 7]), (''cf-0'', [1, 2])],
            remote_counter := 1\<rparr>"

definition heat_retitled :: Movie where
  "heat_retitled =
     heat\<lparr>Movie_Title := ''Heat (1995)'', Movie_IndicativeRating := rating_14,
            Movie_Images := [still1]\<rparr>"

definition new_heat :: Movie where
  "new_heat =
     \<lparr>Movie_ID = ''uuid-0'', Movie_IndicativeRatingID = ''rating-L'',
      Movie_UserID = ''user-alice'', Movie_Title = ''Heat'', Movie_Duration = 170,
      Movie_User = zero_User, Movie_IndicativeRating = zero_IndicativeRating,
      Movie_CreatedAt = 1700000000, Movie_UpdatedAt = time_zero, Movie_Images = []\<rparr>"

definition world2 :: world where
  "world2 = world1\<lparr>upload_queue := [upload_task1]\<rparr>"

definition new_still1 :: MovieImage where
  "new_still1 =
     \<lparr>MovieImage_ID = ''uuid-2'', MovieImage_MovieID = ''uuid-0'',
      MovieImage_ImageURL = ''https://imagedelivery.example/cf-1/public'',
      MovieImage_CloudFlareID = ''cf-1'', MovieImage_CreatedAt = time_zero,
      MovieImage_UpdatedAt = time_zero\<rparr>"

definition new_still2 :: MovieImage where
  "new_still2 =
     \<lparr>MovieImage_ID = ''uuid-3'', MovieImage_MovieID = ''uuid-0'',
      MovieImage_ImageURL = ''https://imagedelivery.example/cf-2/public'',
      MovieImage_CloudFlareID = ''cf-2'', MovieImage_CreatedAt = time_zero,
      MovieImage_UpdatedAt = time_zero\<rparr>"

section \<open>Calls through the recording environments\<close>

lemma record_call_apply:
  "record_call ev f (s, tr) = (fst (f s), (snd (f s), tr @ [ev (fst (f s))]))"
  by (simp add: record_call_def split: prod.splits)

lemma traced_sel:
  "GetIndicativeRatingByID (traced d) ratingID =
     record_call (EvGetIndicativeRatingByID ratingID) (GetIndicativeRatingByID d ratingID)"
  "MovieRepository_Create (traced d) movie =
     record_call (EvMovieCreate movie) (MovieRepository_Create d movie)"
  "AddUploadTaskToQueue (traced d) utask =
     record_call (EvAddUploadTaskToQueue utask) (AddUploadTaskToQueue d utask)"
  "GetALlByUserID (traced d) userID pagination =
     record_call (EvGetALlByUserID userID pagination) (GetALlByUserID d userID pagination)"
  "GetByID (traced d) ID preload = record_call (EvGetByID ID preload) (GetByID d ID preload)"
  "MovieRepository_Update (traced d) movie =
     record_call (EvMovieUpdate movie) (MovieRepository_Update d movie)"
  "AddDeleteTaskToQueue (traced d) dtask =
     record_call (EvAddDeleteTaskToQueue dtask) (AddDeleteTaskToQueue d dtask)"
  "CreateMovieImage (traced d) movieImage =
     record_call (EvCreateMovieImage movieImage) (CreateMovieImage d movieImage)"
  "DeleteMovieImage (traced d) cloudFlareID =
     record_call (EvDeleteMovieImage cloudFlareID) (DeleteMovieImage d cloudFlareID)"
  "UploadImage (traced d) imageBytes filename =
     record_call (EvUploadImage imageBytes filename) (UploadImage d imageBytes filename)"
  "DeleteImage (traced d) cloudFlareID =
     record_call (EvDeleteImage cloudFlareID) (DeleteImage d cloudFlareID)"
  "ConvertImageToBytes (traced d) file =
     record_call (EvConvertImageToBytes file) (ConvertImageToBytes d file)"
  "uuid_New (traced d) = record_call EvUuidNew (uuid_New d)"
  "time_Now (traced d) = record_call EvTimeNow (time_Now d)"
  by (simp_all add: traced_def)

lemmas traced_call = traced_sel record_call_apply

lemma traced_user_sel:
  "UserRepository_GetByEmail (traced_user u) email =
     record_call (EvGetByEmail email) (UserRepository_GetByEmail u email)"
  "UserRepository_Create (traced_user u) user =
     record_call (EvUserCreate user) (UserRepository_Create u user)"
  "HashPassword (traced_user u) password =
     record_call (EvHashPassword password) (HashPassword u password)"
  "CheckPassword (traced_user u) passwordHash password =
     record_call (EvCheckPassword passwordHash password) (CheckPassword u passwordHash password)"
  "ToUser (traced_user u) payload passwordHash =
     record_call (EvToUser payload passwordHash) (ToUser u payload passwordHash)"
  "SessionService_Create (traced_user u) user =
     record_call (EvSessionCreate user) (SessionService_Create u user)"
  by (simp_all add: traced_user_def)

lemmas traced_user_call = traced_user_sel record_call_apply

lemma mem_sel:
  "GetIndicativeRatingByID mem ratingID w =
     (if db_fails w then (Inl db_error, w)
      else (Inr (find (\<lambda>r. IndicativeRating_ID r = ratingID) (db_ratings w)), w))"
  "MovieRepository_Create mem movie w =
     (if db_fails w then (Some db_error, w)
      else (None, w\<lparr>db_movies := db_movies w @ [movie]\<rparr>))"
  "AddUploadTaskToQueue mem utask w =
     (if queue_fails w then (Some queue_error, w)
      else (None, w\<lparr>upload_queue := upload_queue w @ [utask]\<rparr>))"
  "GetByID mem ID preload w =
     (if db_fails w then (Inl db_error, w)
      else
        (Inr (map_option (\<lambda>m. if preload then preload_images w m else m)
                (find (\<lambda>m. Movie_ID m = ID) (db_movies w))), w))"
  "MovieRepository_Update mem movie w =
     (if db_fails w then (Some db_error, w)
      else
        (None, w\<lparr>db_movies :=
                   map (\<lambda>m. if Movie_ID m = Movie_ID movie then movie else m) (db_movies w)\<rparr>))"
  "AddDeleteTaskToQueue mem dtask w =
     (if queue_fails w then (Some queue_error, w)
      else (None, w\<lparr>delete_queue := delete_queue w @ [dtask]\<rparr>))"
  "CreateMovieImage mem movieImage w =
     (if db_fails w then (Some db_error, w)
      else (None, w\<lparr>db_images := db_images w @ [movieImage]\<rparr>))"
  "DeleteMovieImage mem cloudFlareID w =
     (if db_fails w then (Some db_error, w)
      else
        (None, w\<lparr>db_images :=
                   filter (\<lambda>i. MovieImage_CloudFlareID i \<noteq> cloudFlareID) (db_images w)\<rparr>))"
  "UploadImage mem imageBytes filename w =
     (if remote_fails w then (Inl remote_error, w)
      else
        (Inr \<lparr>CloudFlareResponse_URL = remote_url (remote_id (remote_counter w)),
              CloudFlareResponse_ID = remote_id (remote_counter w)\<rparr>,
         w\<lparr>remote_objects := remote_objects w @ [(remote_id (remote_counter w), imageBytes)],
           remote_counter := Suc (remote_counter w)\<rparr>))"
  "DeleteImage mem cloudFlareID w =
     (if remote_fails w then (Some remote_error, w)
      else
        (None, w\<lparr>remote_objects :=
                   filter (\<lambda>obj. fst obj \<noteq> cloudFlareID) (remote_objects w)\<rparr>))"
  "ConvertImageToBytes mem file w =
     (case FileHeader_Content file of
        None \<Rightarrow> (Inl (External ''cannot read the file''), w)
      | Some imageBytes \<Rightarrow> (Inr imageBytes, w))"
  "uuid_New mem w =
     (''uuid-'' @ string_of_nat (uuid_counter w), w\<lparr>uuid_counter := Suc (uuid_counter w)\<rparr>)"
  "time_Now mem w = (clock w, w)"
  by (simp_all add: mem_def)

section \<open>Operations that need a session\<close>

text \<open>
  C9. When the context carries no session (no value under the session key, a value of
  another type, or a nil session pointer), each of \<open>Create\<close>, \<open>GetAllByUserID\<close>, \<open>Update\<close>
  and \<open>Delete\<close> of the movie service returns the user-not-found-in-context error. It
  does so before any call to a collaborator: whatever the collaborators are, their
  state and the list of recorded calls are returned as they were.
\<close>

theorem no_session_no_effect:
  assumes "ctx_session ctx = None"
  shows "movieService_Create (traced d) ctx payload (s, tr) =
           (Inl ErrUserNotFoundInContext, (s, tr)) \<and>
         movieService_GetAllByUserID (traced d) ctx pagination (s, tr) =
           (Inl ErrUserNotFoundInContext, (s, tr)) \<and>
         movieService_Update (traced d) ctx ID update (s, tr) =
           (Inl ErrUserNotFoundInContext, (s, tr)) \<and>
         movieService_Delete (traced d) ctx ID (s, tr) =
           (Some ErrUserNotFoundInContext, (s, tr))"
proof (intro conjI)
  show "movieService_Create (traced d) ctx payload (s, tr) =
      (Inl ErrUserNotFoundInContext, (s, tr))"
    using assms by (simp add: movieService_Create_def)
  show "movieService_GetAllByUserID (traced d) ctx pagination (s, tr) =
      (Inl ErrUserNotFoundInContext, (s, tr))"
    using assms by (simp add: movieService_GetAllByUserID_def)
  show "movieService_Update (traced d) ctx ID update (s, tr) =
      (Inl ErrUserNotFoundInContext, (s, tr))"
    using assms by (simp add: movieService_Update_def)
  show "movieService_Delete (traced d) ctx ID (s, tr) =
      (Some ErrUserNotFoundInContext, (s, tr))"
    using assms by (simp add: movieService_Delete_def)
qed

theorem no_session_no_effect_witness:
  "ctx_session (SessionValue None) = None \<and>
   movieService_Create (traced mem) (SessionValue None) payload2 (world1, []) =
     (Inl ErrUserNotFoundInContext, (world1, [])) \<and>
   movieService_GetAllByUserID (traced mem) (SessionValue None) page1 (world1, []) =
     (Inl ErrUserNotFoundInContext, (world1, [])) \<and>
   movieService_Update (traced mem) (SessionValue None) ''movie-1'' retitle (world1, []) =
     (Inl ErrUserNotFoundInContext, (world1, [])) \<and>
   movieService_Delete (traced mem) (SessionValue None) ''movie-1'' (world1, []) =
     (Some ErrUserNotFoundInContext, (world1, [])) \<and>
   ctx_session NoSessionValue = None \<and>
   movieService_Delete (traced mem) NoSessionValue ''movie-1'' (world1, []) =
     (Some ErrUserNotFoundInContext, (world1, [])) \<and>
   ctx_session ForeignSessionValue = None \<and>
   movieService_Delete (traced mem) ForeignSessionValue ''movie-1'' (world1, []) =
     (Some ErrUserNotFoundInContext, (world1, []))"
proof -
  have nil: "ctx_session (SessionValue None) = None"
    and missing: "ctx_session NoSessionValue = None"
    and foreign: "ctx_session ForeignSessionValue = None"
    by (simp_all add: ctx_session_def)
  show ?thesis
    using nil missing foreign
      no_session_no_effect [OF nil, of mem payload2 world1 "[]" page1 "''movie-1''" retitle]
      no_session_no_effect [OF missing, of mem payload2 world1 "[]" page1 "''movie-1''" retitle]
      no_session_no_effect [OF foreign, of mem payload2 world1 "[]" page1 "''movie-1''" retitle]
    by simp
qed

section \<open>Movie creation with an unknown indicative rating\<close>

text \<open>
  C4. When the repository finds no indicative rating for the payload's
  \<open>IndicativeRatingID\<close>, \<open>Create\<close> of the movie service returns an error and never calls
  the repository's \<open>Create\<close>. With a session in the context the error is
  \<open>ErrIndicativeRatingNotFound\<close> and the lookup of the rating is the only call made;
  without one it is the error of C9 and no call is made at all.
\<close>

theorem Create_unknown_rating:
  assumes "GetIndicativeRatingByID d (MoviePayload_IndicativeRatingID payload) s = (Inr None, s')"
  shows "movieService_Create (traced d) ctx payload (s, []) =
     (case ctx_session ctx of
        None \<Rightarrow> (Inl ErrUserNotFoundInContext, (s, []))
      | Some session \<Rightarrow>
          (Inl ErrIndicativeRatingNotFound,
           (s', [EvGetIndicativeRatingByID (MoviePayload_IndicativeRatingID payload) (Inr None)])))"
proof (cases "ctx_session ctx")
  case None
  then show ?thesis
    by (simp add: movieService_Create_def)
next
  case (Some session)
  with assms show ?thesis
    by (simp add: movieService_Create_def traced_call)
qed

theorem Create_unknown_rating_witness:
  "movieService_Create (traced mem) (SessionValue (Some alice)) payload_unknown_rating (world0, []) =
     (Inl ErrIndicativeRatingNotFound, (world0, [EvGetIndicativeRatingByID ''rating-18'' (Inr None)]))
   \<and> db_movies world0 = []"
proof -
  have lookup:
    "GetIndicativeRatingByID mem (MoviePayload_IndicativeRatingID payload_unknown_rating) world0
       = (Inr None, world0)"
    by (simp add: mem_sel world0_def payload_unknown_rating_def rating_L_def rating_14_def)
  show ?thesis
    using Create_unknown_rating [OF lookup, of "SessionValue (Some alice)"]
    by (simp add: ctx_session_def payload_unknown_rating_def world0_def)
qed

section \<open>Deleting a movie of another user\<close>

text \<open>
  C5. When the movie found by \<open>Delete\<close> belongs to a user other than the one of the
  session, \<open>Delete\<close> returns \<open>ErrMovieNotBelongUser\<close> and the lookup of the movie is the
  only call it makes: no delete task is pushed. Conversely, whenever \<open>Delete\<close> pushes a
  delete task, the context carries a session and the movie found belongs to its user.
\<close>

theorem Delete_not_owner:
  "(ctx_session ctx = Some session \<and> GetByID d ID True s = (Inr (Some movie), s') \<and>
    Movie_UserID movie \<noteq> Session_UserID session \<longrightarrow>
      movieService_Delete (traced d) ctx ID (s, []) =
        (Some ErrMovieNotBelongUser, (s', [EvGetByID ID True (Inr (Some movie))]))) \<and>
   (EvAddDeleteTaskToQueue task r \<in> set (snd (snd (movieService_Delete (traced d) ctx ID (s, []))))
      \<longrightarrow> (\<exists>owner found. ctx_session ctx = Some owner \<and>
                fst (GetByID d ID True s) = Inr (Some found) \<and>
                Movie_UserID found = Session_UserID owner))"
proof (intro conjI impI)
  assume "ctx_session ctx = Some session \<and> GetByID d ID True s = (Inr (Some movie), s') \<and>
    Movie_UserID movie \<noteq> Session_UserID session"
  then show "movieService_Delete (traced d) ctx ID (s, []) =
      (Some ErrMovieNotBelongUser, (s', [EvGetByID ID True (Inr (Some movie))]))"
    by (simp add: movieService_Delete_def traced_call)
next
  assume pushed:
    "EvAddDeleteTaskToQueue task r \<in> set (snd (snd (movieService_Delete (traced d) ctx ID (s, []))))"
  show "\<exists>owner found. ctx_session ctx = Some owner \<and>
      fst (GetByID d ID True s) = Inr (Some found) \<and> Movie_UserID found = Session_UserID owner"
  proof (cases "ctx_session ctx")
    case None
    with pushed show ?thesis
      by (simp add: movieService_Delete_def)
  next
    case (Some owner)
    show ?thesis
    proof (cases "fst (GetByID d ID True s)")
      case (Inl e)
      with pushed Some show ?thesis
        by (simp add: movieService_Delete_def traced_call)
    next
      case (Inr found_opt)
      show ?thesis
      proof (cases found_opt)
        case None
        with pushed Some Inr show ?thesis
          by (simp add: movieService_Delete_def traced_call)
      next
        case (Some found)
        with pushed \<open>ctx_session ctx = Some owner\<close> Inr show ?thesis
          by (cases "Movie_UserID found = Session_UserID owner")
            (simp_all add: movieService_Delete_def traced_call)
      qed
    qed
  qed
qed

theorem Delete_not_owner_witness:
  "movieService_Delete (traced mem) (SessionValue (Some bob)) ''movie-1'' (world1, []) =
     (Some ErrMovieNotBelongUser,
      (world1, [EvGetByID ''movie-1'' True (Inr (Some (heat\<lparr>Movie_Images := [still1]\<rparr>)))])) \<and>
   delete_queue world1 = [] \<and>
   EvAddDeleteTaskToQueue delete_task1 None
     \<in> set (snd (snd (movieService_Delete (traced mem) (SessionValue (Some alice)) ''movie-1'' (world1, [])))) \<and>
   (\<exists>owner found. ctx_session (SessionValue (Some alice)) = Some owner \<and>
      fst (GetByID mem ''movie-1'' True world1) = Inr (Some found) \<and>
      Movie_UserID found = Session_UserID owner)"
proof -
  have found: "GetByID mem ''movie-1'' True world1 =
      (Inr (Some (heat\<lparr>Movie_Images := [still1]\<rparr>)), world1)"
    by (simp add: mem_sel world1_def world0_def heat_def still1_def preload_images_def)
  have bob: "ctx_session (SessionValue (Some bob)) = Some bob"
    by (simp add: ctx_session_def)
  have other: "Movie_UserID (heat\<lparr>Movie_Images := [still1]\<rparr>) \<noteq> Session_UserID bob"
    by (simp add: heat_def bob_def)
  have pushed: "EvAddDeleteTaskToQueue delete_task1 None
     \<in> set (snd (snd (movieService_Delete (traced mem) (SessionValue (Some alice)) ''movie-1'' (world1, []))))"
    by (simp add: movieService_Delete_def traced_call ctx_session_def alice_def heat_def
        still1_def delete_task1_def mem_sel world1_def world0_def preload_images_def)
  have empty: "delete_queue world1 = []"
    by (simp add: world1_def world0_def)
  from Delete_not_owner [of "SessionValue (Some bob)" bob mem "''movie-1''" world1
      "heat\<lparr>Movie_Images := [still1]\<rparr>" world1]
  have refused: "movieService_Delete (traced mem) (SessionValue (Some bob)) ''movie-1'' (world1, []) =
     (Some ErrMovieNotBelongUser,
      (world1, [EvGetByID ''movie-1'' True (Inr (Some (heat\<lparr>Movie_Images := [still1]\<rparr>)))]))"
    using found bob other by blast
  from Delete_not_owner [of "SessionValue (Some alice)" _ mem "''movie-1''" world1 _ _ delete_task1 None]
  have owner: "\<exists>owner found. ctx_session (SessionValue (Some alice)) = Some owner \<and>
      fst (GetByID mem ''movie-1'' True world1) = Inr (Some found) \<and>
      Movie_UserID found = Session_UserID owner"
    using pushed by blast
  show ?thesis
    using refused empty pushed owner by blast
qed

section \<open>Registering an email twice\<close>

text \<open>
  C6. When the repository finds a user with the payload's email, \<open>Create\<close> of the user
  service returns \<open>ErrEmailAlreadyRegister\<close>, and the lookup by email is the only call
  it makes: the password is not hashed and the repository's \<open>Create\<close> is not called.
\<close>

theorem Create_registered_email:
  assumes "UserRepository_GetByEmail u (UserPayload_Email payload) s = (Inr (Some user), s')"
  shows "userService_Create (traced_user u) payload (s, []) =
     (Some ErrEmailAlreadyRegister,
      (s', [EvGetByEmail (UserPayload_Email payload) (Inr (Some user))]))"
  unfolding userService_Create_def
  using assms by (simp add: traced_user_call)

theorem Create_registered_email_witness:
  "userService_Create (traced_user mem_user) alice_again (user_world0, []) =
     (Some ErrEmailAlreadyRegister,
      (user_world0, [EvGetByEmail ''alice@example.com'' (Inr (Some alice_user))])) \<and>
   users user_world0 = [alice_user]"
proof -
  have found: "UserRepository_GetByEmail mem_user (UserPayload_Email alice_again) user_world0 =
      (Inr (Some alice_user), user_world0)"
    by (simp add: mem_user_def userRepository_GetByEmail_def mem_gorm_def user_world0_def
        alice_user_def alice_again_def)
  have rows: "users user_world0 = [alice_user]"
    by (simp add: user_world0_def)
  show ?thesis
    using Create_registered_email [OF found] rows
    by (simp add: alice_again_def)
qed

section \<open>Signing in\<close>

text \<open>
  C7. \<open>SignIn\<close> with the email of an existing user and a password that \<open>CheckPassword\<close>
  rejects against the stored hash returns \<open>ErrInvalidPassword\<close>; with an email that no
  user has it returns \<open>ErrUserNotFound\<close>. In both cases the session service is not
  called. Whenever \<open>SignIn\<close> returns a token, the user was found by email, the password
  was accepted against that user's hash, and the token is the one the session service
  created for that user.
\<close>

theorem SignIn_credentials:
  "(UserRepository_GetByEmail u (SignInPayload_Email payload) s = (Inr (Some user), s1) \<and>
    CheckPassword u (User_PasswordHash user) (SignInPayload_Password payload) s1 = (Some e, s2) \<longrightarrow>
      userService_SignIn (traced_user u) payload (s, []) =
        (Inl ErrInvalidPassword,
         (s2, [EvGetByEmail (SignInPayload_Email payload) (Inr (Some user)),
               EvCheckPassword (User_PasswordHash user) (SignInPayload_Password payload) (Some e)]))) \<and>
   (UserRepository_GetByEmail u (SignInPayload_Email payload) s = (Inr None, s1) \<longrightarrow>
      userService_SignIn (traced_user u) payload (s, []) =
        (Inl ErrUserNotFound, (s1, [EvGetByEmail (SignInPayload_Email payload) (Inr None)]))) \<and>
   (fst (userService_SignIn (traced_user u) payload (s, [])) = Inr response \<longrightarrow>
      (\<exists>found t1 t2 t3.
         UserRepository_GetByEmail u (SignInPayload_Email payload) s = (Inr (Some found), t1) \<and>
         CheckPassword u (User_PasswordHash found) (SignInPayload_Password payload) t1 = (None, t2) \<and>
         SessionService_Create u found t2 = (Inr (SignInResponse_Token response), t3)))"
proof (intro conjI impI)
  assume "UserRepository_GetByEmail u (SignInPayload_Email payload) s = (Inr (Some user), s1) \<and>
    CheckPassword u (User_PasswordHash user) (SignInPayload_Password payload) s1 = (Some e, s2)"
  then show "userService_SignIn (traced_user u) payload (s, []) =
      (Inl ErrInvalidPassword,
       (s2, [EvGetByEmail (SignInPayload_Email payload) (Inr (Some user)),
             EvCheckPassword (User_PasswordHash user) (SignInPayload_Password payload) (Some e)]))"
    by (simp add: userService_SignIn_def traced_user_call)
next
  assume "UserRepository_GetByEmail u (SignInPayload_Email payload) s = (Inr None, s1)"
  then show "userService_SignIn (traced_user u) payload (s, []) =
      (Inl ErrUserNotFound, (s1, [EvGetByEmail (SignInPayload_Email payload) (Inr None)]))"
    by (simp add: userService_SignIn_def traced_user_call)
next
  assume token: "fst (userService_SignIn (traced_user u) payload (s, [])) = Inr response"
  obtain r1 t1 where lookup: "UserRepository_GetByEmail u (SignInPayload_Email payload) s = (r1, t1)"
    by (cases "UserRepository_GetByEmail u (SignInPayload_Email payload) s")
  from token lookup obtain found where r1: "r1 = Inr (Some found)"
    by (cases r1; cases "projr r1")
      (auto simp: userService_SignIn_def traced_user_call split: option.splits)
  obtain r2 t2 where check:
    "CheckPassword u (User_PasswordHash found) (SignInPayload_Password payload) t1 = (r2, t2)"
    by (cases "CheckPassword u (User_PasswordHash found) (SignInPayload_Password payload) t1")
  from token lookup r1 check have r2: "r2 = None"
    by (cases r2) (auto simp: userService_SignIn_def traced_user_call)
  obtain r3 t3 where session: "SessionService_Create u found t2 = (r3, t3)"
    by (cases "SessionService_Create u found t2")
  from token lookup r1 check r2 session have "r3 = Inr (SignInResponse_Token response)"
    by (cases r3) (auto simp: userService_SignIn_def traced_user_call)
  with lookup r1 check r2 session show "\<exists>found t1 t2 t3.
      UserRepository_GetByEmail u (SignInPayload_Email payload) s = (Inr (Some found), t1) \<and>
      CheckPassword u (User_PasswordHash found) (SignInPayload_Password payload) t1 = (None, t2) \<and>
      SessionService_Create u found t2 = (Inr (SignInResponse_Token response), t3)"
    by blast
qed

theorem SignIn_credentials_witness:
  "userService_SignIn (traced_user mem_user) sign_in_wrong_password (user_world0, []) =
     (Inl ErrInvalidPassword,
      (user_world0,
       [EvGetByEmail ''alice@example.com'' (Inr (Some alice_user)),
        EvCheckPassword (User_PasswordHash alice_user) ''WrongP@ssw0rd''
          (Some (External ''hash and password do not match''))])) \<and>
   userService_SignIn (traced_user mem_user) sign_in_unknown (user_world0, []) =
     (Inl ErrUserNotFound,
      (user_world0, [EvGetByEmail ''nonexistent@example.com'' (Inr None)])) \<and>
   fst (userService_SignIn (traced_user mem_user) sign_in_ok (user_world0, [])) =
     Inr \<lparr>SignInResponse_Token = ''token-0''\<rparr> \<and>
   (\<exists>found t1 t2 t3.
      UserRepository_GetByEmail mem_user (SignInPayload_Email sign_in_ok) user_world0 =
        (Inr (Some found), t1) \<and>
      CheckPassword mem_user (User_PasswordHash found) (SignInPayload_Password sign_in_ok) t1 =
        (None, t2) \<and>
      SessionService_Create mem_user found t2 = (Inr ''token-0'', t3))"
proof -
  have alice: "UserRepository_GetByEmail mem_user ''alice@example.com'' user_world0 =
      (Inr (Some alice_user), user_world0)"
    by (simp add: mem_user_def userRepository_GetByEmail_def mem_gorm_def user_world0_def
        alice_user_def)
  have nobody: "UserRepository_GetByEmail mem_user ''nonexistent@example.com'' user_world0 =
      (Inr None, user_world0)"
    by (simp add: mem_user_def userRepository_GetByEmail_def mem_gorm_def user_world0_def
        alice_user_def)
  have rejected: "CheckPassword mem_user (User_PasswordHash alice_user) ''WrongP@ssw0rd'' user_world0 =
      (Some (External ''hash and password do not match''), user_world0)"
    by (simp add: mem_user_def alice_user_def mem_hash_def)
  have accepted: "CheckPassword mem_user (User_PasswordHash alice_user) ''Str0ngP@ssw0rd!'' user_world0 =
      (None, user_world0)"
    by (simp add: mem_user_def alice_user_def mem_hash_def)
  have token: "fst (SessionService_Create mem_user alice_user user_world0) = Inr ''token-0''"
    by (simp add: mem_user_def user_world0_def digit_def)
  have signed_in: "fst (userService_SignIn (traced_user mem_user) sign_in_ok (user_world0, [])) =
      Inr \<lparr>SignInResponse_Token = ''token-0''\<rparr>"
    using alice accepted token
    by (simp add: userService_SignIn_def traced_user_call sign_in_ok_def split: prod.splits sum.splits)
  note facts = SignIn_credentials [of mem_user sign_in_wrong_password user_world0 alice_user
      user_world0 "External ''hash and password do not match''" user_world0]
    SignIn_credentials [of mem_user sign_in_unknown user_world0 _ user_world0]
    SignIn_credentials [of mem_user sign_in_ok user_world0 _ _ _ _ "\<lparr>SignInResponse_Token = ''token-0''\<rparr>"]
  have wrong: "userService_SignIn (traced_user mem_user) sign_in_wrong_password (user_world0, []) =
     (Inl ErrInvalidPassword,
      (user_world0,
       [EvGetByEmail ''alice@example.com'' (Inr (Some alice_user)),
        EvCheckPassword (User_PasswordHash alice_user) ''WrongP@ssw0rd''
          (Some (External ''hash and password do not match''))]))"
    using facts(1) alice rejected by (simp add: sign_in_wrong_password_def)
  have unknown: "userService_SignIn (traced_user mem_user) sign_in_unknown (user_world0, []) =
     (Inl ErrUserNotFound,
      (user_world0, [EvGetByEmail ''nonexistent@example.com'' (Inr None)]))"
    using facts(2) nobody by (simp add: sign_in_unknown_def)
  have correct: "\<exists>found t1 t2 t3.
      UserRepository_GetByEmail mem_user (SignInPayload_Email sign_in_ok) user_world0 =
        (Inr (Some found), t1) \<and>
      CheckPassword mem_user (User_PasswordHash found) (SignInPayload_Password sign_in_ok) t1 =
        (None, t2) \<and>
      SessionService_Create mem_user found t2 = (Inr ''token-0'', t3)"
    using facts(3) signed_in by simp
  show ?thesis
    using wrong unknown signed_in correct by blast
qed

section \<open>The delete-queue consumer\<close>

text \<open>
  C8. \<open>ProcessDeleteQueue\<close> first deletes the remote object named by the task. When
  that fails, the error is returned (wrapped) and the repository is not called. When
  it succeeds, the repository's \<open>DeleteMovieImage\<close> is called next with the same
  identifier, and its error, if any, is returned (wrapped).
\<close>

theorem ProcessDeleteQueue_order:
  "(DeleteImage d (DeleteTask_CloudFlareID task) s = (Some e, s1) \<longrightarrow>
      movieService_ProcessDeleteQueue (traced d) task (s, []) =
        (Some (Errorf ''error to delete image to Cloudflare'' e),
         (s1, [EvDeleteImage (DeleteTask_CloudFlareID task) (Some e)]))) \<and>
   (DeleteImage d (DeleteTask_CloudFlareID task) s = (None, s1) \<and>
    DeleteMovieImage d (DeleteTask_CloudFlareID task) s1 = (r, s2) \<longrightarrow>
      movieService_ProcessDeleteQueue (traced d) task (s, []) =
        (map_option (Errorf ''error to delete movie image to the database error:'') r,
         (s2, [EvDeleteImage (DeleteTask_CloudFlareID task) None,
               EvDeleteMovieImage (DeleteTask_CloudFlareID task) r])))"
proof (intro conjI impI)
  assume "DeleteImage d (DeleteTask_CloudFlareID task) s = (Some e, s1)"
  then show "movieService_ProcessDeleteQueue (traced d) task (s, []) =
      (Some (Errorf ''error to delete image to Cloudflare'' e),
       (s1, [EvDeleteImage (DeleteTask_CloudFlareID task) (Some e)]))"
    by (simp add: movieService_ProcessDeleteQueue_def traced_call)
next
  assume "DeleteImage d (DeleteTask_CloudFlareID task) s = (None, s1) \<and>
    DeleteMovieImage d (DeleteTask_CloudFlareID task) s1 = (r, s2)"
  then show "movieService_ProcessDeleteQueue (traced d) task (s, []) =
      (map_option (Errorf ''error to delete movie image to the database error:'') r,
       (s2, [EvDeleteImage (DeleteTask_CloudFlareID task) None,
             EvDeleteMovieImage (DeleteTask_CloudFlareID task) r]))"
    by (cases r) (simp_all add: movieService_ProcessDeleteQueue_def traced_call)
qed

theorem ProcessDeleteQueue_order_witness:
  "movieService_ProcessDeleteQueue (traced mem) delete_task1 (world1\<lparr>remote_fails := True\<rparr>, []) =
     (Some (Errorf ''error to delete image to Cloudflare'' remote_error),
      (world1\<lparr>remote_fails := True\<rparr>, [EvDeleteImage ''cf-a'' (Some remote_error)])) \<and>
   movieService_ProcessDeleteQueue (traced mem) delete_task1 (world1, []) =
     (None,
      (world1\<lparr>db_images := [], remote_objects := []\<rparr>,
       [EvDeleteImage ''cf-a'' None, EvDeleteMovieImage ''cf-a'' None])) \<and>
   movieService_ProcessDeleteQueue (traced mem) delete_task1 (world1\<lparr>db_fails := True\<rparr>, []) =
     (Some (Errorf ''error to delete movie image to the database error:'' db_error),
      (world1\<lparr>remote_objects := [], db_fails := True\<rparr>,
       [EvDeleteImage ''cf-a'' None, EvDeleteMovieImage ''cf-a'' (Some db_error)]))"
proof -
  have remote_down: "DeleteImage mem (DeleteTask_CloudFlareID delete_task1) (world1\<lparr>remote_fails := True\<rparr>) =
      (Some remote_error, world1\<lparr>remote_fails := True\<rparr>)"
    by (simp add: mem_sel)
  have remote_ok: "DeleteImage mem (DeleteTask_CloudFlareID delete_task1) world1 =
      (None, world1\<lparr>remote_objects := []\<rparr>)"
    by (simp add: mem_sel world1_def world0_def delete_task1_def)
  have db_ok: "DeleteMovieImage mem (DeleteTask_CloudFlareID delete_task1) (world1\<lparr>remote_objects := []\<rparr>) =
      (None, world1\<lparr>db_images := [], remote_objects := []\<rparr>)"
    by (simp add: mem_sel world1_def world0_def delete_task1_def still1_def)
  have remote_ok': "DeleteImage mem (DeleteTask_CloudFlareID delete_task1) (world1\<lparr>db_fails := True\<rparr>) =
      (None, world1\<lparr>remote_objects := [], db_fails := True\<rparr>)"
    by (simp add: mem_sel world1_def world0_def delete_task1_def)
  have db_down: "DeleteMovieImage mem (DeleteTask_CloudFlareID delete_task1)
      (world1\<lparr>remote_objects := [], db_fails := True\<rparr>) =
      (Some db_error, world1\<lparr>remote_objects := [], db_fails := True\<rparr>)"
    by (simp add: mem_sel)
  have name: "DeleteTask_CloudFlareID delete_task1 = ''cf-a''"
    by (simp add: delete_task1_def)
  show ?thesis
    using ProcessDeleteQueue_order [of mem delete_task1 "world1\<lparr>remote_fails := True\<rparr>" remote_error
        "world1\<lparr>remote_fails := True\<rparr>"]
      ProcessDeleteQueue_order [of mem delete_task1 world1 _ "world1\<lparr>remote_objects := []\<rparr>" None
        "world1\<lparr>db_images := [], remote_objects := []\<rparr>"]
      ProcessDeleteQueue_order [of mem delete_task1 "world1\<lparr>db_fails := True\<rparr>" _
        "world1\<lparr>remote_objects := [], db_fails := True\<rparr>" "Some db_error"
        "world1\<lparr>remote_objects := [], db_fails := True\<rparr>"]
      remote_down remote_ok db_ok remote_ok' db_down name
    by simp
qed

section \<open>The upload-queue consumer\<close>

text \<open>
  C1 (amended). \<open>ProcessUploadQueue\<close> uploads the task's bytes first. When the upload
  fails, the error is returned (wrapped) and \<open>CreateMovieImage\<close> is not called: no row
  is written. When the upload succeeds, \<open>CreateMovieImage\<close> is called exactly once,
  after the upload, with a row that carries the task's movie and the URL and
  identifier the remote store returned; the error of that call, if any, is returned
  (wrapped). On the in-memory database and remote store, the \<open>MovieImage\<close> table gains
  that one row when both the upload and the database write succeed, and is unchanged
  otherwise: a row is persisted only if the upload succeeded, but a successful upload
  whose database write fails leaves no row.
\<close>

theorem ProcessUploadQueue_persists:
  "(time_Now d s = (now, s1) \<and>
    UploadImage d (UploadTask_Image task) (upload_filename (UploadTask_MovieID task) now) s1 =
      (Inl e, s2) \<longrightarrow>
      movieService_ProcessUploadQueue (traced d) task (s, []) =
        (Some (Errorf ''error to upload image to Cloudflare'' e),
         (s2, [EvTimeNow now,
               EvUploadImage (UploadTask_Image task)
                 (upload_filename (UploadTask_MovieID task) now) (Inl e)]))) \<and>
   (time_Now d s = (now, s1) \<and>
    UploadImage d (UploadTask_Image task) (upload_filename (UploadTask_MovieID task) now) s1 =
      (Inr response, s2) \<and>
    uuid_New d s2 = (newID, s3) \<and>
    row = \<lparr>MovieImage_ID = newID,
           MovieImage_MovieID = UploadTask_MovieID task,
           MovieImage_ImageURL = CloudFlareResponse_URL response,
           MovieImage_CloudFlareID = CloudFlareResponse_ID response,
           MovieImage_CreatedAt = time_zero,
           MovieImage_UpdatedAt = time_zero\<rparr> \<and>
    CreateMovieImage d row s3 = (r, s4) \<longrightarrow>
      movieService_ProcessUploadQueue (traced d) task (s, []) =
        (map_option (Errorf ''error to save movie image to the database error:'') r,
         (s4, [EvTimeNow now,
               EvUploadImage (UploadTask_Image task)
                 (upload_filename (UploadTask_MovieID task) now) (Inr response),
               EvUuidNew newID,
               EvCreateMovieImage row r]))) \<and>
   db_images (fst (snd (movieService_ProcessUploadQueue (traced mem) task (w, [])))) =
     (if \<not> remote_fails w \<and> \<not> db_fails w
      then db_images w @
             [\<lparr>MovieImage_ID = fst (uuid_New mem w),
               MovieImage_MovieID = UploadTask_MovieID task,
               MovieImage_ImageURL = remote_url (remote_id (remote_counter w)),
               MovieImage_CloudFlareID = remote_id (remote_counter w),
               MovieImage_CreatedAt = time_zero,
               MovieImage_UpdatedAt = time_zero\<rparr>]
      else db_images w)"
proof (intro conjI impI)
  assume "time_Now d s = (now, s1) \<and>
    UploadImage d (UploadTask_Image task) (upload_filename (UploadTask_MovieID task) now) s1 =
      (Inl e, s2)"
  then show "movieService_ProcessUploadQueue (traced d) task (s, []) =
      (Some (Errorf ''error to upload image to Cloudflare'' e),
       (s2, [EvTimeNow now,
             EvUploadImage (UploadTask_Image task)
               (upload_filename (UploadTask_MovieID task) now) (Inl e)]))"
    by (simp add: movieService_ProcessUploadQueue_def traced_call)
next
  assume uploaded: "time_Now d s = (now, s1) \<and>
    UploadImage d (UploadTask_Image task) (upload_filename (UploadTask_MovieID task) now) s1 =
      (Inr response, s2) \<and>
    uuid_New d s2 = (newID, s3) \<and>
    row = \<lparr>MovieImage_ID = newID,
           MovieImage_MovieID = UploadTask_MovieID task,
           MovieImage_ImageURL = CloudFlareResponse_URL response,
           MovieImage_CloudFlareID = CloudFlareResponse_ID response,
           MovieImage_CreatedAt = time_zero,
           MovieImage_UpdatedAt = time_zero\<rparr> \<and>
    CreateMovieImage d row s3 = (r, s4)"
  then show "movieService_ProcessUploadQueue (traced d) task (s, []) =
      (map_option (Errorf ''error to save movie image to the database error:'') r,
       (s4, [EvTimeNow now,
             EvUploadImage (UploadTask_Image task)
               (upload_filename (UploadTask_MovieID task) now) (Inr response),
             EvUuidNew newID,
             EvCreateMovieImage row r]))"
    by (cases r) (clarsimp simp: movieService_ProcessUploadQueue_def traced_call)+
next
  show "db_images (fst (snd (movieService_ProcessUploadQueue (traced mem) task (w, [])))) =
     (if \<not> remote_fails w \<and> \<not> db_fails w
      then db_images w @
             [\<lparr>MovieImage_ID = fst (uuid_New mem w),
               MovieImage_MovieID = UploadTask_MovieID task,
               MovieImage_ImageURL = remote_url (remote_id (remote_counter w)),
               MovieImage_CloudFlareID = remote_id (remote_counter w),
               MovieImage_CreatedAt = time_zero,
               MovieImage_UpdatedAt = time_zero\<rparr>]
      else db_images w)"
    by (simp add: movieService_ProcessUploadQueue_def traced_call mem_sel)
qed

theorem ProcessUploadQueue_persists_witness:
  "movieService_ProcessUploadQueue (traced mem) upload_task1 (world1\<lparr>remote_fails := True\<rparr>, []) =
     (Some (Errorf ''error to upload image to Cloudflare'' remote_error),
      (world1\<lparr>remote_fails := True\<rparr>,
       [EvTimeNow 1700000000,
        EvUploadImage [1, 2] ''movie_movie-1_image_1700000000.jpg'' (Inl remote_error)])) \<and>
   movieService_ProcessUploadQueue (traced mem) upload_task1 (world1, []) =
     (None,
      (world1_uploaded\<lparr>db_images := [still1, still2], uuid_counter := 1\<rparr>,
       [EvTimeNow 1700000000,
        EvUploadImage [1, 2] ''movie_movie-1_image_1700000000.jpg'' (Inr response0),
        EvUuidNew ''uuid-0'',
        EvCreateMovieImage still2 None]))"
proof -
  have name: "upload_filename (UploadTask_MovieID upload_task1) 1700000000 =
      ''movie_movie-1_image_1700000000.jpg''"
    by (simp add: upload_filename_def upload_task1_def string_of_int_def digit_def)
  have bytes: "UploadTask_Image upload_task1 = [1, 2]"
    by (simp add: upload_task1_def)
  have now_down: "time_Now mem (world1\<lparr>remote_fails := True\<rparr>) =
      (1700000000, world1\<lparr>remote_fails := True\<rparr>)"
    by (simp add: mem_sel world1_def world0_def)
  have remote_down: "UploadImage mem (UploadTask_Image upload_task1)
      (upload_filename (UploadTask_MovieID upload_task1) 1700000000) (world1\<lparr>remote_fails := True\<rparr>) =
      (Inl remote_error, world1\<lparr>remote_fails := True\<rparr>)"
    by (simp add: mem_sel)
  have now: "time_Now mem world1 = (1700000000, world1)"
    by (simp add: mem_sel world1_def world0_def)
  have uploaded: "UploadImage mem (UploadTask_Image upload_task1)
      (upload_filename (UploadTask_MovieID upload_task1) 1700000000) world1 =
      (Inr response0, world1_uploaded)"
    by (simp add: mem_sel world1_uploaded_def world1_def world0_def response0_def remote_id_def
        remote_url_def upload_task1_def digit_def)
  have fresh: "uuid_New mem world1_uploaded = (''uuid-0'', world1_uploaded\<lparr>uuid_counter := 1\<rparr>)"
    by (simp add: mem_sel world1_uploaded_def world1_def world0_def digit_def)
  have row: "still2 =
      \<lparr>MovieImage_ID = ''uuid-0'',
       MovieImage_MovieID = UploadTask_MovieID upload_task1,
       MovieImage_ImageURL = CloudFlareResponse_URL response0,
       MovieImage_CloudFlareID = CloudFlareResponse_ID response0,
       MovieImage_CreatedAt = time_zero,
       MovieImage_UpdatedAt = time_zero\<rparr>"
    by (simp add: still2_def upload_task1_def response0_def)
  have written: "CreateMovieImage mem still2 (world1_uploaded\<lparr>uuid_counter := 1\<rparr>) =
      (None, world1_uploaded\<lparr>db_images := [still1, still2], uuid_counter := 1\<rparr>)"
    by (simp add: mem_sel world1_uploaded_def world1_def world0_def)
  have failed: "movieService_ProcessUploadQueue (traced mem) upload_task1 (world1\<lparr>remote_fails := True\<rparr>, []) =
     (Some (Errorf ''error to upload image to Cloudflare'' remote_error),
      (world1\<lparr>remote_fails := True\<rparr>,
       [EvTimeNow 1700000000,
        EvUploadImage [1, 2] ''movie_movie-1_image_1700000000.jpg'' (Inl remote_error)]))"
    using ProcessUploadQueue_persists [where d = mem and s = "world1\<lparr>remote_fails := True\<rparr>"
        and now = 1700000000 and ?s1.0 = "world1\<lparr>remote_fails := True\<rparr>" and task = upload_task1
        and e = remote_error and ?s2.0 = "world1\<lparr>remote_fails := True\<rparr>"]
      now_down remote_down name bytes
    by simp
  have persisted: "movieService_ProcessUploadQueue (traced mem) upload_task1 (world1, []) =
     (None,
      (world1_uploaded\<lparr>db_images := [still1, still2], uuid_counter := 1\<rparr>,
       [EvTimeNow 1700000000,
        EvUploadImage [1, 2] ''movie_movie-1_image_1700000000.jpg'' (Inr response0),
        EvUuidNew ''uuid-0'',
        EvCreateMovieImage still2 None]))"
    using ProcessUploadQueue_persists [where d = mem and s = world1 and now = 1700000000
        and ?s1.0 = world1 and task = upload_task1 and response = response0
        and ?s2.0 = world1_uploaded and newID = "''uuid-0''"
        and ?s3.0 = "world1_uploaded\<lparr>uuid_counter := 1\<rparr>" and row = still2 and r = None
        and ?s4.0 = "world1_uploaded\<lparr>db_images := [still1, still2], uuid_counter := 1\<rparr>"]
      now uploaded fresh row written name bytes
    by simp
  show ?thesis
    using failed persisted by blast
qed

text \<open>
  C1 as stated fails: with a database that rejects the write, the remote upload of the
  task succeeds (the store returns a URL and an identifier and holds the object), the
  consumer returns the error of \<open>CreateMovieImage\<close>, and the \<open>MovieImage\<close> table has no new
  row.
\<close>

theorem upload_succeeds_without_row:
  "UploadImage mem (UploadTask_Image upload_task1)
      (upload_filename (UploadTask_MovieID upload_task1) 1700000000) (world1\<lparr>db_fails := True\<rparr>) =
     (Inr response0, world1_uploaded\<lparr>db_fails := True\<rparr>) \<and>
   movieService_ProcessUploadQueue (traced mem) upload_task1 (world1\<lparr>db_fails := True\<rparr>, []) =
     (Some (Errorf ''error to save movie image to the database error:'' db_error),
      (world1_uploaded\<lparr>uuid_counter := 1, db_fails := True\<rparr>,
       [EvTimeNow 1700000000,
        EvUploadImage [1, 2] ''movie_movie-1_image_1700000000.jpg'' (Inr response0),
        EvUuidNew ''uuid-0'',
        EvCreateMovieImage still2 (Some db_error)])) \<and>
   db_images (world1_uploaded\<lparr>uuid_counter := 1, db_fails := True\<rparr>) = db_images world1 \<and>
   remote_objects (world1_uploaded\<lparr>uuid_counter := 1, db_fails := True\<rparr>) =
     remote_objects world1 @ [(''cf-0'', [1, 2])]"
proof (intro conjI)
  show "UploadImage mem (UploadTask_Image upload_task1)
      (upload_filename (UploadTask_MovieID upload_task1) 1700000000) (world1\<lparr>db_fails := True\<rparr>) =
     (Inr response0, world1_uploaded\<lparr>db_fails := True\<rparr>)"
    by (simp add: mem_sel world1_uploaded_def world1_def world0_def response0_def remote_id_def
        remote_url_def upload_task1_def digit_def)
  show "movieService_ProcessUploadQueue (traced mem) upload_task1 (world1\<lparr>db_fails := True\<rparr>, []) =
     (Some (Errorf ''error to save movie image to the database error:'' db_error),
      (world1_uploaded\<lparr>uuid_counter := 1, db_fails := True\<rparr>,
       [EvTimeNow 1700000000,
        EvUploadImage [1, 2] ''movie_movie-1_image_1700000000.jpg'' (Inr response0),
        EvUuidNew ''uuid-0'',
        EvCreateMovieImage still2 (Some db_error)]))"
    by (simp add: movieService_ProcessUploadQueue_def traced_call mem_sel world1_uploaded_def
        world1_def world0_def response0_def still2_def remote_id_def remote_url_def upload_task1_def
        upload_filename_def string_of_int_def digit_def)
  show "db_images (world1_uploaded\<lparr>uuid_counter := 1, db_fails := True\<rparr>) = db_images world1"
    by (simp add: world1_uploaded_def)
  show "remote_objects (world1_uploaded\<lparr>uuid_counter := 1, db_fails := True\<rparr>) =
     remote_objects world1 @ [(''cf-0'', [1, 2])]"
    by (simp add: world1_uploaded_def world1_def world0_def)
qed

section \<open>Partial update of a movie\<close>

text \<open>
  C10. When the owner of a movie updates it, the movie that \<open>Update\<close> passes to the
  repository's \<open>Update\<close> is the movie found by \<open>GetByID\<close> with only these changes: the
  title and the duration are those of the payload where its pointer is not nil and the
  old ones where it is nil; the \<open>IndicativeRating\<close> field is the rating looked up for
  the payload's identifier where that pointer is not nil and the old one where it is
  nil. All the other fields, among them \<open>ID\<close>, \<open>UserID\<close>, \<open>CreatedAt\<close> and \<open>Images\<close>, are
  those of the movie found.
\<close>

theorem Update_frame:
  assumes session: "ctx_session ctx = Some session"
    and found: "GetByID d ID True s = (Inr (Some movie), s1)"
    and owner: "Movie_UserID movie = Session_UserID session"
    and passed: "EvMovieUpdate updated r
      \<in> set (snd (snd (movieService_Update (traced d) ctx ID payload (s, []))))"
  shows "Movie_ID updated = Movie_ID movie \<and>
         Movie_UserID updated = Movie_UserID movie \<and>
         Movie_CreatedAt updated = Movie_CreatedAt movie \<and>
         Movie_Images updated = Movie_Images movie \<and>
         Movie_IndicativeRatingID updated = Movie_IndicativeRatingID movie \<and>
         Movie_User updated = Movie_User movie \<and>
         Movie_UpdatedAt updated = Movie_UpdatedAt movie \<and>
         Movie_Title updated =
           (case MovieUpdatePayload_Title payload of
              None \<Rightarrow> Movie_Title movie | Some title \<Rightarrow> title) \<and>
         Movie_Duration updated =
           (case MovieUpdatePayload_Duration payload of
              None \<Rightarrow> Movie_Duration movie | Some duration \<Rightarrow> duration) \<and>
         (case MovieUpdatePayload_IndicativeRatingID payload of
            None \<Rightarrow> Movie_IndicativeRating updated = Movie_IndicativeRating movie
          | Some ratingID \<Rightarrow>
              fst (GetIndicativeRatingByID d ratingID s1) =
                Inr (Some (Movie_IndicativeRating updated)))"
proof -
  define tr1 where "tr1 = [EvGetByID ID True (Inr (Some movie))]"
  have run: "movieService_Update (traced d) ctx ID payload (s, []) =
      (case Update_rating (traced d) payload movie (s1, tr1) of
         (Inl e, s2) \<Rightarrow> (Inl e, s2)
       | (Inr rated_movie, s2) \<Rightarrow>
           (let movie3 = Update_duration payload (Update_title payload rated_movie) in
            (case MovieRepository_Update (traced d) movie3 s2 of
               (Some e, s3) \<Rightarrow> (Inl (Errorf ''error to update movie:'' e), s3)
             | (None, s3) \<Rightarrow> (Inr (ToMovieResponse movie3), s3))))"
    using session found owner by (simp add: movieService_Update_def traced_call tr1_def)
  obtain res s2 tr2 where rating_done: "Update_rating (traced d) payload movie (s1, tr1) = (res, (s2, tr2))"
    by (metis prod.exhaust)
  have no_update_yet: "EvMovieUpdate updated r \<notin> set tr2"
    using rating_done
    by (auto simp: Update_rating_def traced_call tr1_def split: option.splits sum.splits)
  show ?thesis
  proof (cases res)
    case (Inl e)
    with passed run rating_done no_update_yet show ?thesis
      by simp
  next
    case (Inr rated_movie)
    have rating: "Movie_IndicativeRating rated_movie =
        (case MovieUpdatePayload_IndicativeRatingID payload of
           None \<Rightarrow> Movie_IndicativeRating movie
         | Some ratingID \<Rightarrow> Movie_IndicativeRating rated_movie)"
      and looked_up: "case MovieUpdatePayload_IndicativeRatingID payload of
           None \<Rightarrow> True
         | Some ratingID \<Rightarrow>
             fst (GetIndicativeRatingByID d ratingID s1) = Inr (Some (Movie_IndicativeRating rated_movie))"
      and rest: "rated_movie\<lparr>Movie_IndicativeRating := Movie_IndicativeRating movie\<rparr> = movie"
      using rating_done Inr
      by (auto simp: Update_rating_def traced_call split: option.splits sum.splits)
    from passed run rating_done Inr no_update_yet
    have updated: "updated = Update_duration payload (Update_title payload rated_movie)"
      by (auto simp: traced_call Let_def split: option.splits)
    have fields: "Movie_ID rated_movie = Movie_ID movie" "Movie_UserID rated_movie = Movie_UserID movie"
      "Movie_CreatedAt rated_movie = Movie_CreatedAt movie" "Movie_Images rated_movie = Movie_Images movie"
      "Movie_IndicativeRatingID rated_movie = Movie_IndicativeRatingID movie"
      "Movie_User rated_movie = Movie_User movie" "Movie_UpdatedAt rated_movie = Movie_UpdatedAt movie"
      "Movie_Title rated_movie = Movie_Title movie" "Movie_Duration rated_movie = Movie_Duration movie"
      using rest by (metis Movie.select_convs Movie.surjective Movie.update_convs)+
    show ?thesis
      using fields rating looked_up
      by (auto simp: updated Update_duration_def Update_title_def split: option.splits)
  qed
qed

theorem Update_frame_witness:
  "EvMovieUpdate heat_retitled None
     \<in> set (snd (snd (movieService_Update (traced mem) (SessionValue (Some alice)) ''movie-1''
                          retitle (world1, [])))) \<and>
   Movie_ID heat_retitled = ''movie-1'' \<and>
   Movie_UserID heat_retitled = ''user-alice'' \<and>
   Movie_CreatedAt heat_retitled = 1650000000 \<and>
   Movie_Images heat_retitled = [still1] \<and>
   Movie_IndicativeRatingID heat_retitled = ''rating-L'' \<and>
   Movie_Title heat_retitled = ''Heat (1995)'' \<and>
   Movie_Duration heat_retitled = 170 \<and>
   fst (GetIndicativeRatingByID mem ''rating-14'' world1) =
     Inr (Some (Movie_IndicativeRating heat_retitled))"
proof -
  have session: "ctx_session (SessionValue (Some alice)) = Some alice"
    by (simp add: ctx_session_def)
  have found: "GetByID mem ''movie-1'' True world1 =
      (Inr (Some (heat\<lparr>Movie_Images := [still1]\<rparr>)), world1)"
    by (simp add: mem_sel world1_def world0_def heat_def still1_def preload_images_def)
  have owner: "Movie_UserID (heat\<lparr>Movie_Images := [still1]\<rparr>) = Session_UserID alice"
    by (simp add: heat_def alice_def)
  have rating: "GetIndicativeRatingByID mem ''rating-14'' world1 = (Inr (Some rating_14), world1)"
    by (simp add: mem_sel world1_def world0_def rating_L_def rating_14_def)
  have passed: "EvMovieUpdate heat_retitled None
     \<in> set (snd (snd (movieService_Update (traced mem) (SessionValue (Some alice)) ''movie-1''
                          retitle (world1, []))))"
    by (simp add: movieService_Update_def Update_rating_def Update_title_def Update_duration_def
        traced_call retitle_def heat_retitled_def heat_def Let_def mem_sel world1_def world0_def
        preload_images_def still1_def ctx_session_def alice_def rating_14_def rating_L_def)
  show ?thesis
    using Update_frame [OF session found owner passed] passed rating
    by (simp add: heat_def retitle_def heat_retitled_def)
qed

section \<open>Upload tasks produced by movie creation\<close>

lemma ToMovie_traced:
  "ToMovie (traced d) payload userID (s, tr) =
     (fst (ToMovie d payload userID s),
      (snd (ToMovie d payload userID s),
       tr @ [EvUuidNew (Movie_ID (fst (ToMovie d payload userID s))),
             EvTimeNow (Movie_CreatedAt (fst (ToMovie d payload userID s)))]))"
  by (simp add: ToMovie_def traced_call split: prod.splits)

lemma produced_tasks_append:
  "produced_tasks (calls @ calls') = produced_tasks calls @ produced_tasks calls'"
  by (induction calls rule: produced_tasks.induct) simp_all

lemma produced_tasks_image_calls:
  "produced_tasks (image_calls movie session img outcome) = image_tasks movie session outcome"
  by (simp add: image_calls_def image_tasks_def split: sum.splits prod.splits option.splits)

lemma produced_tasks_images:
  "length outcomes = length images \<Longrightarrow>
   produced_tasks (concat (map2 (image_calls movie session) images outcomes)) =
     concat (map (image_tasks movie session) outcomes)"
proof (induction images arbitrary: outcomes)
  case Nil
  then show ?case by simp
next
  case (Cons img images)
  then obtain outcome rest where "outcomes = outcome # rest"
    by (cases outcomes) auto
  with Cons show ?case
    by (simp add: produced_tasks_append produced_tasks_image_calls)
qed

lemma length_image_tasks:
  "length (concat (map (image_tasks movie session) outcomes)) \<le> length outcomes"
proof (induction outcomes)
  case Nil
  show ?case by simp
next
  case (Cons outcome outcomes)
  have "length (image_tasks movie session outcome) \<le> 1"
    by (simp add: image_tasks_def split: sum.splits prod.splits option.splits)
  with Cons show ?case
    by simp
qed

lemma image_calls_simps:
  "image_calls movie session img (Inl e) = [EvConvertImageToBytes img (Inl e)]"
  "image_calls movie session img (Inr (imageBytes, r)) =
     [EvConvertImageToBytes img (Inr imageBytes),
      EvAddUploadTaskToQueue (image_task movie session imageBytes) r]"
  by (simp_all add: image_calls_def)

lemma Create_images_Cons:
  "Create_images d movie session (img # images) s =
     (case ConvertImageToBytes d img s of
        (Inl e, s1) \<Rightarrow> Create_images d movie session images s1
      | (Inr imageBytes, s1) \<Rightarrow>
          Create_images d movie session images
            (snd (AddUploadTaskToQueue d (image_task movie session imageBytes) s1)))"
  by (simp add: image_task_def split: prod.splits sum.splits)

lemma Create_images_traced:
  "\<exists>outcomes s'. length outcomes = length images \<and>
     Create_images (traced d) movie session images (s, tr) =
       (s', tr @ concat (map2 (image_calls movie session) images outcomes))"
proof (induction images arbitrary: s tr)
  case Nil
  show ?case by simp
next
  case (Cons img images)
  obtain converted s1 where convert: "ConvertImageToBytes d img s = (converted, s1)"
    by (cases "ConvertImageToBytes d img s")
  show ?case
  proof (cases converted)
    case (Inl e)
    from Cons [of s1 "tr @ [EvConvertImageToBytes img (Inl e)]"]
    obtain outcomes s' where rest: "length outcomes = length images"
      "Create_images (traced d) movie session images (s1, tr @ [EvConvertImageToBytes img (Inl e)]) =
         (s', (tr @ [EvConvertImageToBytes img (Inl e)]) @
              concat (map2 (image_calls movie session) images outcomes))"
      by blast
    have "length (Inl e # outcomes) = length (img # images)"
      using rest(1) by simp
    moreover have "Create_images (traced d) movie session (img # images) (s, tr) =
        (s', tr @ concat (map2 (image_calls movie session) (img # images) (Inl e # outcomes)))"
      using convert Inl rest(2)
      by (simp add: Create_images_Cons traced_call image_calls_simps del: Create_images.simps)
    ultimately show ?thesis
      by blast
  next
    case (Inr imageBytes)
    obtain r s2 where push:
      "AddUploadTaskToQueue d (image_task movie session imageBytes) s1 = (r, s2)"
      by (cases "AddUploadTaskToQueue d (image_task movie session imageBytes) s1")
    let ?calls = "[EvConvertImageToBytes img (Inr imageBytes),
                   EvAddUploadTaskToQueue (image_task movie session imageBytes) r]"
    from Cons [of s2 "tr @ ?calls"]
    obtain outcomes s' where rest: "length outcomes = length images"
      "Create_images (traced d) movie session images (s2, tr @ ?calls) =
         (s', (tr @ ?calls) @ concat (map2 (image_calls movie session) images outcomes))"
      by blast
    have "length (Inr (imageBytes, r) # outcomes) = length (img # images)"
      using rest(1) by simp
    moreover have "Create_images (traced d) movie session (img # images) (s, tr) =
        (s', tr @ concat (map2 (image_calls movie session) (img # images)
                            (Inr (imageBytes, r) # outcomes)))"
      using convert Inr push rest(2)
      by (simp add: Create_images_Cons traced_call image_calls_simps del: Create_images.simps)
    ultimately show ?thesis
      by blast
  qed
qed

lemma Create_calls:
  assumes session: "ctx_session ctx = Some session"
    and rating: "GetIndicativeRatingByID d (MoviePayload_IndicativeRatingID payload) s =
      (Inr (Some rating), s1)"
    and movie: "ToMovie d payload (Session_UserID session) s1 = (movie, s2)"
    and created: "MovieRepository_Create d movie s2 = (None, s3)"
  shows "\<exists>response s4 outcomes.
      length outcomes = length (MoviePayload_Images payload) \<and>
      movieService_Create (traced d) ctx payload (s, []) =
        (Inr response,
         (s4, [EvGetIndicativeRatingByID (MoviePayload_IndicativeRatingID payload) (Inr (Some rating)),
               EvUuidNew (Movie_ID movie), EvTimeNow (Movie_CreatedAt movie),
               EvMovieCreate movie None] @
              concat (map2 (image_calls movie session) (MoviePayload_Images payload) outcomes))) \<and>
      produced_tasks (snd (snd (movieService_Create (traced d) ctx payload (s, [])))) =
        concat (map (image_tasks movie session) outcomes)"
proof -
  let ?before = "[EvGetIndicativeRatingByID (MoviePayload_IndicativeRatingID payload) (Inr (Some rating)),
                  EvUuidNew (Movie_ID movie), EvTimeNow (Movie_CreatedAt movie),
                  EvMovieCreate movie None]"
  obtain outcomes s4 where loop: "length outcomes = length (MoviePayload_Images payload)"
    "Create_images (traced d) movie session (MoviePayload_Images payload) (s3, ?before) =
       (s4, ?before @ concat (map2 (image_calls movie session) (MoviePayload_Images payload) outcomes))"
    using Create_images_traced [of "MoviePayload_Images payload" d movie session s3 ?before]
    by blast
  have run: "movieService_Create (traced d) ctx payload (s, []) =
      (Inr ((ToMovieResponse movie)
              \<lparr>MovieResponse_IndicativeRating := Some (ToIndicativeRatingResponse rating)\<rparr>),
       (s4, ?before @ concat (map2 (image_calls movie session) (MoviePayload_Images payload) outcomes)))"
    using session rating movie created loop(2)
    by (simp add: movieService_Create_def traced_call ToMovie_traced)
  have "produced_tasks (snd (snd (movieService_Create (traced d) ctx payload (s, [])))) =
      concat (map (image_tasks movie session) outcomes)"
    using loop(1) by (simp add: run produced_tasks_append produced_tasks_images)
  with loop(1) run show ?thesis
    by blast
qed

text \<open>
  C2. The upload tasks that \<open>Create\<close> produces (those pushed without error) are never
  more than the images of the payload. When \<open>Create\<close> gets as far as its loop (a session,
  a rating found, the movie row written), it returns a response whatever happens to
  the images, it converts every image of the payload, in order, pushes one task for
  every image whose conversion succeeded, and the tasks it produces are exactly one
  for every image whose conversion and push both succeeded.
\<close>

theorem Create_upload_tasks:
  "length (produced_tasks (snd (snd (movieService_Create (traced d) ctx payload (s, [])))))
     \<le> length (MoviePayload_Images payload) \<and>
   (ctx_session ctx = Some session \<and>
    GetIndicativeRatingByID d (MoviePayload_IndicativeRatingID payload) s = (Inr (Some rating), s1) \<and>
    ToMovie d payload (Session_UserID session) s1 = (movie, s2) \<and>
    MovieRepository_Create d movie s2 = (None, s3) \<longrightarrow>
      (\<exists>response s4 outcomes.
         length outcomes = length (MoviePayload_Images payload) \<and>
         movieService_Create (traced d) ctx payload (s, []) =
           (Inr response,
            (s4, [EvGetIndicativeRatingByID (MoviePayload_IndicativeRatingID payload)
                    (Inr (Some rating)),
                  EvUuidNew (Movie_ID movie), EvTimeNow (Movie_CreatedAt movie),
                  EvMovieCreate movie None] @
                 concat (map2 (image_calls movie session) (MoviePayload_Images payload) outcomes))) \<and>
         produced_tasks (snd (snd (movieService_Create (traced d) ctx payload (s, [])))) =
           concat (map (image_tasks movie session) outcomes)))"
proof (intro conjI impI)
  assume reached: "ctx_session ctx = Some session \<and>
    GetIndicativeRatingByID d (MoviePayload_IndicativeRatingID payload) s = (Inr (Some rating), s1) \<and>
    ToMovie d payload (Session_UserID session) s1 = (movie, s2) \<and>
    MovieRepository_Create d movie s2 = (None, s3)"
  show "\<exists>response s4 outcomes.
      length outcomes = length (MoviePayload_Images payload) \<and>
      movieService_Create (traced d) ctx payload (s, []) =
        (Inr response,
         (s4, [EvGetIndicativeRatingByID (MoviePayload_IndicativeRatingID payload) (Inr (Some rating)),
               EvUuidNew (Movie_ID movie), EvTimeNow (Movie_CreatedAt movie),
               EvMovieCreate movie None] @
              concat (map2 (image_calls movie session) (MoviePayload_Images payload) outcomes))) \<and>
      produced_tasks (snd (snd (movieService_Create (traced d) ctx payload (s, [])))) =
        concat (map (image_tasks movie session) outcomes)"
    using reached by (intro Create_calls [where ?s1.0 = s1 and ?s2.0 = s2 and ?s3.0 = s3]) simp_all
next
  let ?run = "movieService_Create (traced d) ctx payload (s, [])"
  show "length (produced_tasks (snd (snd ?run))) \<le> length (MoviePayload_Images payload)"
  proof (cases "ctx_session ctx")
    case None
    then show ?thesis
      by (simp add: movieService_Create_def)
  next
    case (Some owner)
    obtain looked_up t1 where lookup:
      "GetIndicativeRatingByID d (MoviePayload_IndicativeRatingID payload) s = (looked_up, t1)"
      by (cases "GetIndicativeRatingByID d (MoviePayload_IndicativeRatingID payload) s")
    show ?thesis
    proof (cases looked_up)
      case (Inl e)
      with Some lookup show ?thesis
        by (simp add: movieService_Create_def traced_call)
    next
      case (Inr found)
      show ?thesis
      proof (cases found)
        case None
        with Some lookup Inr show ?thesis
          by (simp add: movieService_Create_def traced_call)
      next
        case (Some found_rating)
        obtain new_movie t2 where made: "ToMovie d payload (Session_UserID owner) t1 = (new_movie, t2)"
          by (cases "ToMovie d payload (Session_UserID owner) t1")
        obtain written t3 where stored: "MovieRepository_Create d new_movie t2 = (written, t3)"
          by (cases "MovieRepository_Create d new_movie t2")
        show ?thesis
        proof (cases written)
          case None
          from Create_calls [OF \<open>ctx_session ctx = Some owner\<close>
              lookup [unfolded Inr Some] made stored [unfolded None]]
          obtain outcomes where "length outcomes = length (MoviePayload_Images payload)"
            "produced_tasks (snd (snd ?run)) = concat (map (image_tasks new_movie owner) outcomes)"
            by blast
          then show ?thesis
            using length_image_tasks [of new_movie owner outcomes] by simp
        next
          case (Some e)
          with \<open>ctx_session ctx = Some owner\<close> lookup Inr \<open>found = Some found_rating\<close> made stored
          show ?thesis
            by (simp add: movieService_Create_def traced_call ToMovie_traced)
        qed
      qed
    qed
  qed
qed

theorem Create_upload_tasks_witness:
  "length (produced_tasks (snd (snd (movieService_Create (traced mem) (SessionValue (Some alice))
                                         payload3 (world0, [])))))
     \<le> length (MoviePayload_Images payload3) \<and>
   (\<exists>response s4 outcomes.
      length outcomes = length (MoviePayload_Images payload3) \<and>
      movieService_Create (traced mem) (SessionValue (Some alice)) payload3 (world0, []) =
        (Inr response,
         (s4, [EvGetIndicativeRatingByID (MoviePayload_IndicativeRatingID payload3)
                 (Inr (Some rating_L)),
               EvUuidNew (Movie_ID new_heat), EvTimeNow (Movie_CreatedAt new_heat),
               EvMovieCreate new_heat None] @
              concat (map2 (image_calls new_heat alice) (MoviePayload_Images payload3) outcomes))) \<and>
      produced_tasks (snd (snd (movieService_Create (traced mem) (SessionValue (Some alice))
                                  payload3 (world0, [])))) =
        concat (map (image_tasks new_heat alice) outcomes)) \<and>
   produced_tasks (snd (snd (movieService_Create (traced mem) (SessionValue (Some alice))
                               payload3 (world0, [])))) =
     [image_task new_heat alice [1, 2], image_task new_heat alice [3]] \<and>
   upload_queue (fst (snd (movieService_Create (traced mem) (SessionValue (Some alice))
                             payload3 (world0, [])))) =
     [image_task new_heat alice [1, 2], image_task new_heat alice [3]]"
proof -
  have session: "ctx_session (SessionValue (Some alice)) = Some alice"
    by (simp add: ctx_session_def)
  have rating: "GetIndicativeRatingByID mem (MoviePayload_IndicativeRatingID payload3) world0 =
      (Inr (Some rating_L), world0)"
    by (simp add: mem_sel world0_def payload3_def rating_L_def)
  have movie: "ToMovie mem payload3 (Session_UserID alice) world0 =
      (new_heat, world0\<lparr>uuid_counter := 1\<rparr>)"
    by (simp add: ToMovie_def mem_sel world0_def payload3_def alice_def new_heat_def digit_def)
  have created: "MovieRepository_Create mem new_heat (world0\<lparr>uuid_counter := 1\<rparr>) =
      (None, world0\<lparr>db_movies := [new_heat], uuid_counter := 1\<rparr>)"
    by (simp add: mem_sel world0_def)
  have run: "movieService_Create (traced mem) (SessionValue (Some alice)) payload3 (world0, []) =
      (Inr ((ToMovieResponse new_heat)
              \<lparr>MovieResponse_IndicativeRating := Some (ToIndicativeRatingResponse rating_L)\<rparr>),
       (world0\<lparr>db_movies := [new_heat],
               upload_queue := [image_task new_heat alice [1, 2], image_task new_heat alice [3]],
               uuid_counter := 1\<rparr>,
        [EvGetIndicativeRatingByID ''rating-L'' (Inr (Some rating_L)),
         EvUuidNew ''uuid-0'', EvTimeNow 1700000000, EvMovieCreate new_heat None,
         EvConvertImageToBytes poster1 (Inr [1, 2]),
         EvAddUploadTaskToQueue (image_task new_heat alice [1, 2]) None,
         EvConvertImageToBytes broken_file (Inl (External ''cannot read the file'')),
         EvConvertImageToBytes poster2 (Inr [3]),
         EvAddUploadTaskToQueue (image_task new_heat alice [3]) None]))"
    using session rating movie created
    by (simp add: movieService_Create_def traced_call ToMovie_traced mem_sel payload3_def
        poster1_def poster2_def broken_file_def image_task_def world0_def new_heat_def)
  note claim = Create_upload_tasks [where d = mem and ctx = "SessionValue (Some alice)"
      and payload = payload3 and s = world0 and session = alice and rating = rating_L
      and ?s1.0 = world0 and movie = new_heat and ?s2.0 = "world0\<lparr>uuid_counter := 1\<rparr>"
      and ?s3.0 = "world0\<lparr>db_movies := [new_heat], uuid_counter := 1\<rparr>"]
  have bound: "length (produced_tasks (snd (snd (movieService_Create (traced mem)
      (SessionValue (Some alice)) payload3 (world0, []))))) \<le> length (MoviePayload_Images payload3)"
    using claim by blast
  have shape: "\<exists>response s4 outcomes.
      length outcomes = length (MoviePayload_Images payload3) \<and>
      movieService_Create (traced mem) (SessionValue (Some alice)) payload3 (world0, []) =
        (Inr response,
         (s4, [EvGetIndicativeRatingByID (MoviePayload_IndicativeRatingID payload3)
                 (Inr (Some rating_L)),
               EvUuidNew (Movie_ID new_heat), EvTimeNow (Movie_CreatedAt new_heat),
               EvMovieCreate new_heat None] @
              concat (map2 (image_calls new_heat alice) (MoviePayload_Images payload3) outcomes))) \<and>
      produced_tasks (snd (snd (movieService_Create (traced mem) (SessionValue (Some alice))
                                  payload3 (world0, [])))) =
        concat (map (image_tasks new_heat alice) outcomes)"
    using claim session rating movie created by blast
  have tasks: "produced_tasks (snd (snd (movieService_Create (traced mem) (SessionValue (Some alice))
      payload3 (world0, [])))) = [image_task new_heat alice [1, 2], image_task new_heat alice [3]]"
    by (simp add: run)
  have queue: "upload_queue (fst (snd (movieService_Create (traced mem) (SessionValue (Some alice))
      payload3 (world0, [])))) = [image_task new_heat alice [1, 2], image_task new_heat alice [3]]"
    by (simp add: run)
  show ?thesis
    using bound shape tasks queue by blast
qed

section \<open>End to end: creation, then the worker\<close>

lemma upload_worker_empty:
  "upload_queue w = [] \<Longrightarrow> upload_worker (w, tr) = (w, tr)"
  by (subst upload_worker.simps) (simp add: GetNextUploadTaskFromQueue_def)

lemma upload_worker_pull:
  "upload_queue w = task # tasks \<Longrightarrow>
   upload_worker (w, tr) =
     upload_worker (snd (movieService_ProcessUploadQueue (traced mem) task
                            (w\<lparr>upload_queue := tasks\<rparr>, tr)))"
  by (subst upload_worker.simps) (simp add: GetNextUploadTaskFromQueue_def)

text \<open>One task on a database and a remote store that work.\<close>

lemma ProcessUploadQueue_healthy:
  assumes "\<not> db_fails w" and "\<not> remote_fails w"
  shows "movieService_ProcessUploadQueue (traced mem) task (w, tr) =
     (None,
      (w\<lparr>db_images := db_images w @
            [\<lparr>MovieImage_ID = fst (uuid_New mem w),
              MovieImage_MovieID = UploadTask_MovieID task,
              MovieImage_ImageURL = remote_url (remote_id (remote_counter w)),
              MovieImage_CloudFlareID = remote_id (remote_counter w),
              MovieImage_CreatedAt = time_zero,
              MovieImage_UpdatedAt = time_zero\<rparr>],
         remote_objects := remote_objects w @ [(remote_id (remote_counter w), UploadTask_Image task)],
         remote_counter := Suc (remote_counter w),
         uuid_counter := Suc (uuid_counter w)\<rparr>,
       tr @ [EvTimeNow (clock w),
             EvUploadImage (UploadTask_Image task)
               (upload_filename (UploadTask_MovieID task) (clock w))
               (Inr \<lparr>CloudFlareResponse_URL = remote_url (remote_id (remote_counter w)),
                     CloudFlareResponse_ID = remote_id (remote_counter w)\<rparr>),
             EvUuidNew (fst (uuid_New mem w)),
             EvCreateMovieImage
               \<lparr>MovieImage_ID = fst (uuid_New mem w),
                MovieImage_MovieID = UploadTask_MovieID task,
                MovieImage_ImageURL = remote_url (remote_id (remote_counter w)),
                MovieImage_CloudFlareID = remote_id (remote_counter w),
                MovieImage_CreatedAt = time_zero,
                MovieImage_UpdatedAt = time_zero\<rparr> None]))"
  using assms
  by (simp add: movieService_ProcessUploadQueue_def traced_call mem_sel)

text \<open>
  The worker on a queue that ends with two tasks of one movie, behind tasks of other
  movies: the last eight calls are those of the two tasks, and the movie gains exactly
  the two rows written for them.
\<close>

lemma upload_worker_two_tasks:
  assumes "upload_queue w = tasks @ [task1, task2]"
    and "\<not> db_fails w" and "\<not> remote_fails w"
    and "\<forall>t\<in>set tasks. UploadTask_MovieID t \<noteq> movieID"
    and "UploadTask_MovieID task1 = movieID" and "UploadTask_MovieID task2 = movieID"
  shows "\<exists>w2 before now1 name1 response1 id1 row1 now2 name2 response2 id2 row2.
      upload_worker (w, tr) =
        (w2, tr @ before @
             [EvTimeNow now1, EvUploadImage (UploadTask_Image task1) name1 (Inr response1),
              EvUuidNew id1, EvCreateMovieImage row1 None,
              EvTimeNow now2, EvUploadImage (UploadTask_Image task2) name2 (Inr response2),
              EvUuidNew id2, EvCreateMovieImage row2 None]) \<and>
      upload_queue w2 = [] \<and>
      filter (\<lambda>i. MovieImage_MovieID i = movieID) (db_images w2) =
        filter (\<lambda>i. MovieImage_MovieID i = movieID) (db_images w) @ [row1, row2] \<and>
      MovieImage_ImageURL row1 = CloudFlareResponse_URL response1 \<and>
      MovieImage_ImageURL row2 = CloudFlareResponse_URL response2"
  using assms
proof (induction tasks arbitrary: w tr)
  case Nil
  define wa where "wa = snd (movieService_ProcessUploadQueue (traced mem) task1
      (w\<lparr>upload_queue := [task2]\<rparr>, tr))"
  define wb where "wb = snd (movieService_ProcessUploadQueue (traced mem) task2
      ((fst wa)\<lparr>upload_queue := []\<rparr>, snd wa))"
  have first: "upload_worker (w, tr) = upload_worker wa"
    using Nil.prems(1) by (simp add: upload_worker_pull wa_def)
  have wa: "wa = (fst wa, snd wa)"
    by simp
  have healthy1: "\<not> db_fails (w\<lparr>upload_queue := [task2]\<rparr>)" "\<not> remote_fails (w\<lparr>upload_queue := [task2]\<rparr>)"
    using Nil.prems by simp_all
  note step1 = ProcessUploadQueue_healthy [OF healthy1, of task1 tr]
  have queue_a: "upload_queue (fst wa) = [task2]"
    by (simp add: wa_def step1)
  have second: "upload_worker wa = upload_worker wb"
    using upload_worker_pull [OF queue_a, of "snd wa"] by (simp add: wb_def)
  have healthy2: "\<not> db_fails ((fst wa)\<lparr>upload_queue := []\<rparr>)"
    "\<not> remote_fails ((fst wa)\<lparr>upload_queue := []\<rparr>)"
    using Nil.prems by (simp_all add: wa_def step1)
  note step2 = ProcessUploadQueue_healthy [OF healthy2, of task2 "snd wa"]
  have queue_b: "upload_queue (fst wb) = []"
    by (simp add: wb_def step2)
  have third: "upload_worker wb = wb"
    using upload_worker_empty [OF queue_b, of "snd wb"] by simp
  let ?row1 = "\<lparr>MovieImage_ID = fst (uuid_New mem w),
                 MovieImage_MovieID = UploadTask_MovieID task1,
                 MovieImage_ImageURL = remote_url (remote_id (remote_counter w)),
                 MovieImage_CloudFlareID = remote_id (remote_counter w),
                 MovieImage_CreatedAt = time_zero,
                 MovieImage_UpdatedAt = time_zero\<rparr>"
  let ?row2 = "\<lparr>MovieImage_ID = fst (uuid_New mem (fst wa)),
                 MovieImage_MovieID = UploadTask_MovieID task2,
                 MovieImage_ImageURL = remote_url (remote_id (remote_counter (fst wa))),
                 MovieImage_CloudFlareID = remote_id (remote_counter (fst wa)),
                 MovieImage_CreatedAt = time_zero,
                 MovieImage_UpdatedAt = time_zero\<rparr>"
  let ?response1 = "\<lparr>CloudFlareResponse_URL = remote_url (remote_id (remote_counter w)),
                      CloudFlareResponse_ID = remote_id (remote_counter w)\<rparr>"
  let ?response2 = "\<lparr>CloudFlareResponse_URL = remote_url (remote_id (remote_counter (fst wa))),
                      CloudFlareResponse_ID = remote_id (remote_counter (fst wa))\<rparr>"
  have run: "upload_worker (w, tr) =
      (fst wb, tr @ [] @
         [EvTimeNow (clock w),
          EvUploadImage (UploadTask_Image task1)
            (upload_filename (UploadTask_MovieID task1) (clock w)) (Inr ?response1),
          EvUuidNew (fst (uuid_New mem w)), EvCreateMovieImage ?row1 None,
          EvTimeNow (clock (fst wa)),
          EvUploadImage (UploadTask_Image task2)
            (upload_filename (UploadTask_MovieID task2) (clock (fst wa))) (Inr ?response2),
          EvUuidNew (fst (uuid_New mem (fst wa))), EvCreateMovieImage ?row2 None])"
  proof -
    have "snd wa = tr @ [EvTimeNow (clock w),
          EvUploadImage (UploadTask_Image task1)
            (upload_filename (UploadTask_MovieID task1) (clock w)) (Inr ?response1),
          EvUuidNew (fst (uuid_New mem w)), EvCreateMovieImage ?row1 None]"
      by (simp add: wa_def step1 mem_sel)
    moreover have "snd wb = snd wa @ [EvTimeNow (clock (fst wa)),
          EvUploadImage (UploadTask_Image task2)
            (upload_filename (UploadTask_MovieID task2) (clock (fst wa))) (Inr ?response2),
          EvUuidNew (fst (uuid_New mem (fst wa))), EvCreateMovieImage ?row2 None]"
      by (simp add: wb_def step2 mem_sel)
    ultimately have "wb = (fst wb, tr @ [] @
         [EvTimeNow (clock w),
          EvUploadImage (UploadTask_Image task1)
            (upload_filename (UploadTask_MovieID task1) (clock w)) (Inr ?response1),
          EvUuidNew (fst (uuid_New mem w)), EvCreateMovieImage ?row1 None,
          EvTimeNow (clock (fst wa)),
          EvUploadImage (UploadTask_Image task2)
            (upload_filename (UploadTask_MovieID task2) (clock (fst wa))) (Inr ?response2),
          EvUuidNew (fst (uuid_New mem (fst wa))), EvCreateMovieImage ?row2 None])"
      by (cases wb) simp
    with first second third show ?thesis
      by simp
  qed
  have images_a: "db_images (fst wa) = db_images w @ [?row1]"
    by (simp add: wa_def step1 mem_sel)
  have images_b: "db_images (fst wb) = db_images (fst wa) @ [?row2]"
    by (simp add: wb_def step2 mem_sel)
  have rows: "filter (\<lambda>i. MovieImage_MovieID i = movieID) (db_images (fst wb)) =
      filter (\<lambda>i. MovieImage_MovieID i = movieID) (db_images w) @ [?row1, ?row2]"
    using Nil.prems(5,6) by (simp add: images_a images_b)
  have url1: "MovieImage_ImageURL ?row1 = CloudFlareResponse_URL ?response1"
    by simp
  have url2: "MovieImage_ImageURL ?row2 = CloudFlareResponse_URL ?response2"
    by simp
  show ?case
    by (intro exI conjI) (rule run queue_b rows url1 url2)+
next
  case (Cons task tasks)
  define wa where "wa = snd (movieService_ProcessUploadQueue (traced mem) task
      (w\<lparr>upload_queue := tasks @ [task1, task2]\<rparr>, tr))"
  have first: "upload_worker (w, tr) = upload_worker (fst wa, snd wa)"
    using Cons.prems(1) by (simp add: upload_worker_pull wa_def)
  have healthy1: "\<not> db_fails (w\<lparr>upload_queue := tasks @ [task1, task2]\<rparr>)"
    "\<not> remote_fails (w\<lparr>upload_queue := tasks @ [task1, task2]\<rparr>)"
    using Cons.prems by simp_all
  note step1 = ProcessUploadQueue_healthy [OF healthy1, of task tr]
  obtain calls where calls: "snd wa = tr @ calls"
    by (simp add: wa_def step1)
  have queue_a: "upload_queue (fst wa) = tasks @ [task1, task2]"
    and healthy_a: "\<not> db_fails (fst wa)" "\<not> remote_fails (fst wa)"
    using Cons.prems by (simp_all add: wa_def step1)
  have foreign: "\<forall>t\<in>set tasks. UploadTask_MovieID t \<noteq> movieID"
    using Cons.prems(4) by simp
  have rows_a: "filter (\<lambda>i. MovieImage_MovieID i = movieID) (db_images (fst wa)) =
      filter (\<lambda>i. MovieImage_MovieID i = movieID) (db_images w)"
    using Cons.prems(4) by (simp add: wa_def step1)
  from Cons.IH [OF queue_a healthy_a foreign Cons.prems(5,6), of "snd wa"]
  obtain w2 before now1 name1 response1 id1 row1 now2 name2 response2 id2 row2 where rest:
    "upload_worker (fst wa, snd wa) =
       (w2, snd wa @ before @
            [EvTimeNow now1, EvUploadImage (UploadTask_Image task1) name1 (Inr response1),
             EvUuidNew id1, EvCreateMovieImage row1 None,
             EvTimeNow now2, EvUploadImage (UploadTask_Image task2) name2 (Inr response2),
             EvUuidNew id2, EvCreateMovieImage row2 None])"
    "upload_queue w2 = []"
    "filter (\<lambda>i. MovieImage_MovieID i = movieID) (db_images w2) =
       filter (\<lambda>i. MovieImage_MovieID i = movieID) (db_images (fst wa)) @ [row1, row2]"
    "MovieImage_ImageURL row1 = CloudFlareResponse_URL response1"
    "MovieImage_ImageURL row2 = CloudFlareResponse_URL response2"
    by blast
  have run: "upload_worker (w, tr) =
       (w2, tr @ (calls @ before) @
            [EvTimeNow now1, EvUploadImage (UploadTask_Image task1) name1 (Inr response1),
             EvUuidNew id1, EvCreateMovieImage row1 None,
             EvTimeNow now2, EvUploadImage (UploadTask_Image task2) name2 (Inr response2),
             EvUuidNew id2, EvCreateMovieImage row2 None])"
    using first rest(1) calls by simp
  have rows: "filter (\<lambda>i. MovieImage_MovieID i = movieID) (db_images w2) =
       filter (\<lambda>i. MovieImage_MovieID i = movieID) (db_images w) @ [row1, row2]"
    using rest(3) rows_a by simp
  show ?case
    by (intro exI conjI) (rule run rest(2) rows rest(4) rest(5))+
qed

text \<open>
  C3. A payload with two readable images is created by an authenticated user, on a
  database, a queue and a remote store that work, with an existing indicative rating,
  and with no image row and no pending task that already carries the identifier of
  the new movie. After \<open>Create\<close> and after the worker has emptied the upload queue,
  the rows of the \<open>MovieImage\<close> table for the new movie are exactly two. They are the
  rows written by the worker's last two calls to \<open>CreateMovieImage\<close>, each right after
  the upload of one of the two images, and each row's \<open>ImageURL\<close> is the URL in the
  response the remote store gave to that upload.
\<close>

theorem Create_then_worker:
  assumes session: "ctx_session ctx = Some session"
    and healthy: "\<not> db_fails w" "\<not> queue_fails w" "\<not> remote_fails w"
    and rating: "find (\<lambda>r. IndicativeRating_ID r = MoviePayload_IndicativeRatingID payload)
                   (db_ratings w) = Some rating"
    and images: "MoviePayload_Images payload = [file1, file2]"
    and readable: "FileHeader_Content file1 = Some bytes1" "FileHeader_Content file2 = Some bytes2"
    and fresh_rows: "\<forall>i\<in>set (db_images w). MovieImage_MovieID i \<noteq> fst (uuid_New mem w)"
    and fresh_tasks: "\<forall>t\<in>set (upload_queue w). UploadTask_MovieID t \<noteq> fst (uuid_New mem w)"
  shows "\<exists>response w1 w2 before now1 name1 response1 id1 row1 now2 name2 response2 id2 row2.
      movieService_Create mem ctx payload w = (Inr response, w1) \<and>
      upload_worker (w1, []) =
        (w2, before @
             [EvTimeNow now1, EvUploadImage bytes1 name1 (Inr response1),
              EvUuidNew id1, EvCreateMovieImage row1 None,
              EvTimeNow now2, EvUploadImage bytes2 name2 (Inr response2),
              EvUuidNew id2, EvCreateMovieImage row2 None]) \<and>
      upload_queue w2 = [] \<and>
      filter (\<lambda>i. MovieImage_MovieID i = MovieResponse_ID response) (db_images w2) = [row1, row2] \<and>
      MovieImage_ImageURL row1 = CloudFlareResponse_URL response1 \<and>
      MovieImage_ImageURL row2 = CloudFlareResponse_URL response2"
proof -
  define movie where "movie = fst (ToMovie mem payload (Session_UserID session) w)"
  define task1 where "task1 = image_task movie session bytes1"
  define task2 where "task2 = image_task movie session bytes2"
  define w1 where "w1 = w\<lparr>db_movies := db_movies w @ [movie],
                          upload_queue := upload_queue w @ [task1, task2],
                          uuid_counter := Suc (uuid_counter w)\<rparr>"
  define response where "response = (ToMovieResponse movie)
      \<lparr>MovieResponse_IndicativeRating := Some (ToIndicativeRatingResponse rating)\<rparr>"
  have new_id: "Movie_ID movie = fst (uuid_New mem w)"
    by (simp add: movie_def ToMovie_def mem_sel)
  have created: "movieService_Create mem ctx payload w = (Inr response, w1)"
    using session healthy rating readable
    by (simp add: movieService_Create_def ToMovie_def mem_sel images response_def w1_def movie_def
        task1_def task2_def image_task_def)
  have response_id: "MovieResponse_ID response = fst (uuid_New mem w)"
    using new_id by (simp add: response_def ToMovieResponse_def)
  have queue: "upload_queue w1 = upload_queue w @ [task1, task2]"
    and healthy1: "\<not> db_fails w1" "\<not> remote_fails w1"
    and images1: "db_images w1 = db_images w"
    using healthy by (simp_all add: w1_def)
  have own: "UploadTask_MovieID task1 = fst (uuid_New mem w)"
    "UploadTask_MovieID task2 = fst (uuid_New mem w)"
    using new_id by (simp_all add: task1_def task2_def image_task_def)
  have bytes: "UploadTask_Image task1 = bytes1" "UploadTask_Image task2 = bytes2"
    by (simp_all add: task1_def task2_def image_task_def)
  have none_before: "filter (\<lambda>i. MovieImage_MovieID i = fst (uuid_New mem w)) (db_images w) = []"
    using fresh_rows by (simp add: filter_empty_conv)
  from upload_worker_two_tasks [OF queue healthy1 fresh_tasks own, of "[]"]
  obtain w2 before now1 name1 response1 id1 row1 now2 name2 response2 id2 row2 where worker:
    "upload_worker (w1, []) =
       (w2, [] @ before @
            [EvTimeNow now1, EvUploadImage (UploadTask_Image task1) name1 (Inr response1),
             EvUuidNew id1, EvCreateMovieImage row1 None,
             EvTimeNow now2, EvUploadImage (UploadTask_Image task2) name2 (Inr response2),
             EvUuidNew id2, EvCreateMovieImage row2 None])"
    "upload_queue w2 = []"
    "filter (\<lambda>i. MovieImage_MovieID i = fst (uuid_New mem w)) (db_images w2) =
       filter (\<lambda>i. MovieImage_MovieID i = fst (uuid_New mem w)) (db_images w1) @ [row1, row2]"
    "MovieImage_ImageURL row1 = CloudFlareResponse_URL response1"
    "MovieImage_ImageURL row2 = CloudFlareResponse_URL response2"
    by blast
  have run: "upload_worker (w1, []) =
       (w2, before @
            [EvTimeNow now1, EvUploadImage bytes1 name1 (Inr response1),
             EvUuidNew id1, EvCreateMovieImage row1 None,
             EvTimeNow now2, EvUploadImage bytes2 name2 (Inr response2),
             EvUuidNew id2, EvCreateMovieImage row2 None])"
    using worker(1) bytes by simp
  have rows: "filter (\<lambda>i. MovieImage_MovieID i = MovieResponse_ID response) (db_images w2) =
      [row1, row2]"
    using worker(3) none_before by (simp add: response_id images1)
  show ?thesis
    by (intro exI conjI) (rule created run worker(2) rows worker(4) worker(5))+
qed

theorem Create_then_worker_witness:
  "(\<exists>response w1 w2 before now1 name1 response1 id1 row1 now2 name2 response2 id2 row2.
      movieService_Create mem (SessionValue (Some alice)) payload2 world2 = (Inr response, w1) \<and>
      upload_worker (w1, []) =
        (w2, before @
             [EvTimeNow now1, EvUploadImage [1, 2] name1 (Inr response1),
              EvUuidNew id1, EvCreateMovieImage row1 None,
              EvTimeNow now2, EvUploadImage [3] name2 (Inr response2),
              EvUuidNew id2, EvCreateMovieImage row2 None]) \<and>
      upload_queue w2 = [] \<and>
      filter (\<lambda>i. MovieImage_MovieID i = MovieResponse_ID response) (db_images w2) = [row1, row2] \<and>
      MovieImage_ImageURL row1 = CloudFlareResponse_URL response1 \<and>
      MovieImage_ImageURL row2 = CloudFlareResponse_URL response2) \<and>
   MovieResponse_ID (projr (fst (movieService_Create mem (SessionValue (Some alice)) payload2 world2))) =
     ''uuid-0'' \<and>
   filter (\<lambda>i. MovieImage_MovieID i = ''uuid-0'')
     (db_images (fst (upload_worker
        (snd (movieService_Create mem (SessionValue (Some alice)) payload2 world2), [])))) =
     [new_still1, new_still2]"
proof -
  have session: "ctx_session (SessionValue (Some alice)) = Some alice"
    by (simp add: ctx_session_def)
  have healthy: "\<not> db_fails world2" "\<not> queue_fails world2" "\<not> remote_fails world2"
    by (simp_all add: world2_def world1_def world0_def)
  have rating: "find (\<lambda>r. IndicativeRating_ID r = MoviePayload_IndicativeRatingID payload2)
      (db_ratings world2) = Some rating_L"
    by (simp add: world2_def world1_def world0_def payload2_def rating_L_def)
  have images: "MoviePayload_Images payload2 = [poster1, poster2]"
    by (simp add: payload2_def)
  have readable: "FileHeader_Content poster1 = Some [1, 2]" "FileHeader_Content poster2 = Some [3]"
    by (simp_all add: poster1_def poster2_def)
  have new_id: "fst (uuid_New mem world2) = ''uuid-0''"
    by (simp add: mem_sel world2_def world1_def world0_def digit_def)
  have fresh_rows: "\<forall>i\<in>set (db_images world2). MovieImage_MovieID i \<noteq> fst (uuid_New mem world2)"
    by (simp add: new_id) (simp add: world2_def world1_def world0_def still1_def)
  have fresh_tasks: "\<forall>t\<in>set (upload_queue world2). UploadTask_MovieID t \<noteq> fst (uuid_New mem world2)"
    by (simp add: new_id) (simp add: world2_def world1_def world0_def upload_task1_def)
  note claim = Create_then_worker [OF session healthy rating images readable fresh_rows fresh_tasks]
  have created: "movieService_Create mem (SessionValue (Some alice)) payload2 world2 =
      (Inr ((ToMovieResponse new_heat)
              \<lparr>MovieResponse_IndicativeRating := Some (ToIndicativeRatingResponse rating_L)\<rparr>),
       world2\<lparr>db_movies := [heat, new_heat],
               upload_queue := [upload_task1, image_task new_heat alice [1, 2],
                                image_task new_heat alice [3]],
               uuid_counter := 1\<rparr>)"
    by (simp add: movieService_Create_def ToMovie_def mem_sel ctx_session_def payload2_def
        poster1_def poster2_def image_task_def world2_def world1_def world0_def new_heat_def
        alice_def rating_L_def digit_def)
  have response_id: "MovieResponse_ID (projr (fst (movieService_Create mem (SessionValue (Some alice))
      payload2 world2))) = ''uuid-0''"
    by (simp add: created ToMovieResponse_def new_heat_def)
  have rows: "filter (\<lambda>i. MovieImage_MovieID i = ''uuid-0'')
     (db_images (fst (upload_worker
        (snd (movieService_Create mem (SessionValue (Some alice)) payload2 world2), [])))) =
     [new_still1, new_still2]"
    unfolding created snd_conv
    by (simp add: upload_worker.simps GetNextUploadTaskFromQueue_def
        movieService_ProcessUploadQueue_def traced_call mem_sel image_task_def world2_def
        world1_def world0_def new_heat_def alice_def upload_task1_def still1_def new_still1_def
        new_still2_def remote_id_def remote_url_def digit_def)
  show ?thesis
    using claim response_id rows by blast
qed

end
